theory Spec2Isabelle
  imports Complex_Main "HOL-Library.AList" "HOL-Library.Word"
begin

section \<open>JavaScript values\<close>

text \<open>
  A JavaScript \<open>number\<close>: the three non-finite values and the finite ones, a double
  being a real. Comparing two doubles involves no rounding, so \<open>>\<close> and \<open><=\<close> are
  defined on the values. Adding two doubles rounds: \<open>+\<close> is the addition of the
  platform (\<open>Number_add\<close> below), and nothing is assumed of it.
\<close>

datatype jsnum = NaN | NegInf | Fin real | PosInf

fun js_gt :: "jsnum \<Rightarrow> jsnum \<Rightarrow> bool" where
  "js_gt NaN _ = False"
| "js_gt _ NaN = False"
| "js_gt NegInf _ = False"
| "js_gt (Fin a) NegInf = True"
| "js_gt (Fin a) (Fin b) = (b < a)"
| "js_gt (Fin a) PosInf = False"
| "js_gt PosInf PosInf = False"
| "js_gt PosInf _ = True"

fun js_le :: "jsnum \<Rightarrow> jsnum \<Rightarrow> bool" where
  "js_le NaN _ = False"
| "js_le _ NaN = False"
| "js_le NegInf _ = True"
| "js_le (Fin a) NegInf = False"
| "js_le (Fin a) (Fin b) = (a \<le> b)"
| "js_le (Fin a) PosInf = True"
| "js_le PosInf PosInf = True"
| "js_le PosInf _ = False"

text \<open>\<open>Number.isFinite\<close> on a number.\<close>

fun isFinite :: "jsnum \<Rightarrow> bool" where
  "isFinite (Fin a) = True"
| "isFinite _ = False"

text \<open>Truthiness of a number: \<open>0\<close> and \<open>NaN\<close> are falsy.\<close>

fun num_truthy :: "jsnum \<Rightarrow> bool" where
  "num_truthy NaN = False"
| "num_truthy (Fin a) = (a \<noteq> 0)"
| "num_truthy _ = True"

text \<open>
  A value of type \<open>unknown\<close>, as \<open>JSON.parse\<close> produces it. A key that is missing from an
  object reads as \<open>undefined\<close>: lookups return an option, \<open>None\<close> for \<open>undefined\<close>.
\<close>

datatype json =
    JNull
  | JBool bool
  | JNum jsnum
  | JStr string
  | JArr "json list"
  | JObj "(string \<times> json) list"

text \<open>Truthiness of a looked-up value (\<open>None\<close> is \<open>undefined\<close>).\<close>

fun truthy :: "json option \<Rightarrow> bool" where
  "truthy None = False"
| "truthy (Some JNull) = False"
| "truthy (Some (JBool b)) = b"
| "truthy (Some (JNum n)) = num_truthy n"
| "truthy (Some (JStr s)) = (s \<noteq> [])"
| "truthy (Some (JArr xs)) = True"
| "truthy (Some (JObj kvs)) = True"

section \<open>The data model (src/src/shared/types.ts)\<close>

datatype ChainId = polygonAmoy | polygon

datatype ExtensionStatus = idle | paying | verified

record ExtensionSettings =
  thresholdUsd :: jsnum
  dailyAutoCapUsd :: jsnum
  preferredToken :: string
  chain :: ChainId
  promptRequired :: bool

record WalletData =
  address :: string
  encryptedPrivateKey :: "string option"
  encryptionSalt :: "string option"
  encryptionIv :: "string option"
  encryptionTag :: "string option"
  privateKey :: "string option"
  lockDurationMinutes :: "jsnum option"
  lockedUntil :: "int option"
  label :: "string option"

record BalanceCache =
  tokenBalance :: string
  rawBalance :: string
  usd :: jsnum
  usdRate :: jsnum
  lastFetched :: int
  bc_tokenSymbol :: string
  bc_decimals :: "jsnum option"
  bc_tokenAddress :: "string option"

datatype PolicyMode = mode_ask | mode_deny

record SitePolicy =
  sp_origin :: string
  allowUnderThreshold :: bool
  mode :: PolicyMode
  capUsd :: "jsnum option"
  lifetimeUsd :: jsnum
  dailyUsd :: jsnum
  lastResetISO :: string

datatype PaymentStatus = status_pending | status_success | status_denied | status_error

record PaymentRecord =
  pr_id :: string
  pr_origin :: string
  pr_endpoint :: string
  pr_amountUsd :: jsnum
  pr_tokenSymbol :: string
  timestamp :: int
  status :: PaymentStatus
  autoApproved :: bool
  txHash :: "string option"
  pr_note :: "string option"

record JwtCacheEntry =
  paymentId :: string
  jwt :: string
  expiresAt :: int

record ChallengeDetails =
  amountUsd :: jsnum
  tokenSymbol :: string
  challengeId :: string
  endpoint :: string
  origin :: string
  rawHeaders :: "(string \<times> string) list"
  http_method :: string
  chainId :: jsnum
  network :: "string option"
  tokenAddress :: json
  seller :: string
  amountAtomic :: string
  tokenName :: "string option"
  tokenVersion :: "string option"
  tokenDecimals :: "jsnum option"
  x402Version :: "jsnum option"
  rawChallenge :: "json option"

record PendingChallenge =
  challenge :: ChallengeDetails
  tabId :: "int option"
  createdAt :: int
  windowId :: "int option"

record ExtensionState =
  settings :: ExtensionSettings
  wallet :: "WalletData option"
  balance :: BalanceCache
  balances :: "ChainId \<Rightarrow> BalanceCache"
  policies :: "(string \<times> SitePolicy) list"
  history :: "PaymentRecord list"
  jwtCache :: "(string \<times> JwtCacheEntry) list"
  pendingChallenges :: "(string \<times> PendingChallenge) list"
  extensionStatus :: ExtensionStatus

datatype ChallengeResolutionAction = action_retry | action_deny | action_error | action_pending

record ChallengeResolution =
  action :: ChallengeResolutionAction
  message :: "string option"
  retryHeaders :: "(string \<times> string) list option"
  res_challengeId :: "string option"

section \<open>The state store (src/src/shared/storage.ts)\<close>

text \<open>
  Times are milliseconds since the epoch, as \<open>Date.now()\<close> returns them; the reading of
  the clock is a parameter \<open>now\<close> of every function that reads it. An operation reads
  the clock once: the time that passes between two readings inside one operation is not
  modelled.
\<close>

text \<open>
  The store is the document under the key \<open>state\<close> of \<open>chrome.storage.local\<close> together
  with the two module variables that hold the unlocked key in memory. A stored document
  is one this code wrote: every key of \<open>ExtensionState\<close> is present in it.
\<close>

record Store =
  stored :: "ExtensionState option"
  runtimePrivateKey :: "string option"
  runtimeLockedUntil :: int

text \<open>
  \<open>Partial<ExtensionState>\<close>: each key present or not. \<open>wallet\<close> may be present with the
  value \<open>undefined\<close> (\<open>Some None\<close>), which \<open>hasOwnProperty\<close> tells from its absence.
\<close>

record StateUpdate =
  u_settings :: "ExtensionSettings option"
  u_wallet :: "WalletData option option"
  u_balance :: "BalanceCache option"
  u_balances :: "(ChainId \<Rightarrow> BalanceCache) option"
  u_policies :: "(string \<times> SitePolicy) list option"
  u_history :: "PaymentRecord list option"
  u_jwtCache :: "(string \<times> JwtCacheEntry) list option"
  u_pendingChallenges :: "(string \<times> PendingChallenge) list option"
  u_extensionStatus :: "ExtensionStatus option"

definition no_update :: StateUpdate where
  "no_update = \<lparr> u_settings = None, u_wallet = None, u_balance = None, u_balances = None,
                  u_policies = None, u_history = None, u_jwtCache = None,
                  u_pendingChallenges = None, u_extensionStatus = None \<rparr>"

text \<open>Truthiness of an optional string and of an optional time.\<close>

fun str_truthy :: "string option \<Rightarrow> bool" where
  "str_truthy None = False"
| "str_truthy (Some s) = (s \<noteq> [])"

fun time_truthy :: "int option \<Rightarrow> bool" where
  "time_truthy None = False"
| "time_truthy (Some t) = (t \<noteq> 0)"

text \<open>
  The literal 0.05 of the source is the double nearest to it, 3602879701896397 / 2^56.
\<close>

definition defaultSettings :: ExtensionSettings where
  "defaultSettings = \<lparr> thresholdUsd = Fin (3602879701896397 / 72057594037927936), dailyAutoCapUsd = Fin 1,
                        preferredToken = ''USDC'', chain = polygonAmoy,
                        promptRequired = False \<rparr>"

definition defaultBalanceTemplate :: BalanceCache where
  "defaultBalanceTemplate = \<lparr> tokenBalance = ''0'', rawBalance = ''0'', usd = Fin 0,
                               usdRate = Fin 1, lastFetched = 0, bc_tokenSymbol = ''USDC'',
                               bc_decimals = Some (Fin 6), bc_tokenAddress = None \<rparr>"

text \<open>\<open>{...a, ...b}\<close> on two balance entries: the optional keys of \<open>b\<close> win when present.\<close>

definition spreadBalance :: "BalanceCache \<Rightarrow> BalanceCache \<Rightarrow> BalanceCache" where
  "spreadBalance a b =
     b \<lparr> bc_decimals := (case bc_decimals b of None \<Rightarrow> bc_decimals a | Some d \<Rightarrow> Some d),
         bc_tokenAddress :=
           (case bc_tokenAddress b of None \<Rightarrow> bc_tokenAddress a | Some t \<Rightarrow> Some t) \<rparr>"

definition cloneBalance :: "BalanceCache option \<Rightarrow> BalanceCache" where
  "cloneBalance overrides =
     (case overrides of
        None \<Rightarrow> defaultBalanceTemplate
      | Some b \<Rightarrow> spreadBalance defaultBalanceTemplate b)"

definition INITIAL_STATE :: ExtensionState where
  "INITIAL_STATE = \<lparr> settings = defaultSettings, wallet = None, balance = cloneBalance None,
                      balances = (\<lambda>c. cloneBalance None), policies = [], history = [],
                      jwtCache = [], pendingChallenges = [], extensionStatus = idle \<rparr>"

definition captureRuntimeWallet :: "Store \<Rightarrow> WalletData option \<Rightarrow> Store" where
  "captureRuntimeWallet store w =
     store \<lparr> runtimePrivateKey := (case w of None \<Rightarrow> None | Some x \<Rightarrow> privateKey x),
             runtimeLockedUntil :=
               (case w of
                  None \<Rightarrow> 0
                | Some x \<Rightarrow> (case lockedUntil x of None \<Rightarrow> 0 | Some t \<Rightarrow> t)) \<rparr>"

definition sanitizeWalletForPersist :: "WalletData option \<Rightarrow> WalletData option" where
  "sanitizeWalletForPersist w =
     (case w of None \<Rightarrow> None | Some x \<Rightarrow> Some (x \<lparr> privateKey := None \<rparr>))"

definition applyRuntimeWallet ::
  "Store \<Rightarrow> ExtensionState \<Rightarrow> bool \<Rightarrow> int \<Rightarrow> Store \<times> ExtensionState" where
  "applyRuntimeWallet store state includePrivateKey now =
     (case wallet state of
        None \<Rightarrow> (store, state)
      | Some w \<Rightarrow>
          let unlocked = (str_truthy (runtimePrivateKey store) \<and> now < runtimeLockedUntil store)
          in if \<not> unlocked then
               (store \<lparr> runtimePrivateKey := None, runtimeLockedUntil := 0 \<rparr>,
                state \<lparr> wallet := Some (w \<lparr> privateKey := None, lockedUntil := Some 0 \<rparr>) \<rparr>)
             else if includePrivateKey then
               (store,
                state \<lparr> wallet := Some (w \<lparr> privateKey := runtimePrivateKey store,
                                             lockedUntil := Some (runtimeLockedUntil store) \<rparr>) \<rparr>)
             else
               (store,
                state \<lparr> wallet := Some (w \<lparr> privateKey := None,
                                             lockedUntil := Some (runtimeLockedUntil store) \<rparr>) \<rparr>))"

definition getState :: "Store \<Rightarrow> bool \<Rightarrow> int \<Rightarrow> Store \<times> ExtensionState" where
  "getState store includePrivateKey now =
     (case stored store of
        Some st \<Rightarrow>
          let merged = st \<lparr> balance := cloneBalance (Some (balance st)),
                            balances := (\<lambda>c. cloneBalance (Some (balances st c))) \<rparr>
          in (case wallet merged of
                Some w \<Rightarrow>
                  if str_truthy (privateKey w) then
                    (case sanitizeWalletForPersist (Some w) of
                       Some sanitizedWallet \<Rightarrow>
                         let persisted = sanitizedWallet \<lparr> lockedUntil := Some 0 \<rparr>;
                             merged' = merged \<lparr> wallet := Some persisted \<rparr>;
                             store' = store \<lparr> stored := Some merged',
                                             runtimePrivateKey := None,
                                             runtimeLockedUntil := 0 \<rparr>
                         in applyRuntimeWallet store' merged' includePrivateKey now
                     | None \<Rightarrow> applyRuntimeWallet store merged includePrivateKey now)
                  else applyRuntimeWallet store merged includePrivateKey now
              | None \<Rightarrow> applyRuntimeWallet store merged includePrivateKey now)
      | None \<Rightarrow> (store \<lparr> stored := Some INITIAL_STATE \<rparr>, INITIAL_STATE))"

definition setState :: "Store \<Rightarrow> StateUpdate \<Rightarrow> int \<Rightarrow> Store \<times> ExtensionState" where
  "setState store update now =
     (let (store1, current) = getState store False now;
          didUpdateWallet = (u_wallet update \<noteq> None);
          nextWallet = (case u_wallet update of Some w \<Rightarrow> w | None \<Rightarrow> wallet current);
          next = \<lparr> settings = (case u_settings update of None \<Rightarrow> settings current | Some s \<Rightarrow> s),
                   wallet = nextWallet,
                   balance = (case u_balance update of
                                None \<Rightarrow> balance current
                              | Some b \<Rightarrow> spreadBalance (balance current) b),
                   balances = (case u_balances update of None \<Rightarrow> balances current | Some b \<Rightarrow> b),
                   policies = (case u_policies update of None \<Rightarrow> policies current | Some p \<Rightarrow> p),
                   history = (case u_history update of None \<Rightarrow> history current | Some h \<Rightarrow> h),
                   jwtCache = (case u_jwtCache update of None \<Rightarrow> jwtCache current | Some j \<Rightarrow> j),
                   pendingChallenges = (case u_pendingChallenges update of
                                          None \<Rightarrow> pendingChallenges current
                                        | Some p \<Rightarrow> p),
                   extensionStatus = (case u_extensionStatus update of
                                        None \<Rightarrow> extensionStatus current
                                      | Some e \<Rightarrow> e) \<rparr>;
          store2 = (if didUpdateWallet then captureRuntimeWallet store1 (wallet next) else store1);
          persisted = next \<lparr> wallet := sanitizeWalletForPersist (wallet next) \<rparr>
      in (store2 \<lparr> stored := Some persisted \<rparr>, next))"

text \<open>The writers that go through \<open>setState\<close>.\<close>

record SettingsPartial =
  p_thresholdUsd :: "jsnum option"
  p_dailyAutoCapUsd :: "jsnum option"
  p_preferredToken :: "string option"
  p_chain :: "ChainId option"
  p_promptRequired :: "bool option"

definition updateSettings :: "Store \<Rightarrow> SettingsPartial \<Rightarrow> int \<Rightarrow> Store \<times> ExtensionState" where
  "updateSettings store partial now =
     (let (store1, state) = getState store False now;
          s = settings state;
          merged = \<lparr> thresholdUsd = (case p_thresholdUsd partial of None \<Rightarrow> thresholdUsd s | Some v \<Rightarrow> v),
                     dailyAutoCapUsd =
                       (case p_dailyAutoCapUsd partial of None \<Rightarrow> dailyAutoCapUsd s | Some v \<Rightarrow> v),
                     preferredToken =
                       (case p_preferredToken partial of None \<Rightarrow> preferredToken s | Some v \<Rightarrow> v),
                     chain = (case p_chain partial of None \<Rightarrow> chain s | Some v \<Rightarrow> v),
                     promptRequired =
                       (case p_promptRequired partial of None \<Rightarrow> promptRequired s | Some v \<Rightarrow> v) \<rparr>
      in setState store1 (no_update \<lparr> u_settings := Some merged \<rparr>) now)"

definition updateWallet :: "Store \<Rightarrow> WalletData option \<Rightarrow> int \<Rightarrow> Store \<times> ExtensionState" where
  "updateWallet store w now = setState store (no_update \<lparr> u_wallet := Some w \<rparr>) now"

definition addHistory :: "Store \<Rightarrow> PaymentRecord \<Rightarrow> int \<Rightarrow> Store \<times> ExtensionState" where
  "addHistory store record now =
     (let (store1, state) = getState store False now;
          history' = take 2000 (record # history state)
      in setState store1 (no_update \<lparr> u_history := Some history' \<rparr>) now)"

definition pruneJwtCache :: "Store \<Rightarrow> int \<Rightarrow> Store \<times> ExtensionState" where
  "pruneJwtCache store now =
     (let (store1, state) = getState store False now;
          jwtCache' = filter (\<lambda>(key, entry). now < expiresAt entry) (jwtCache state)
      in setState store1 (no_update \<lparr> u_jwtCache := Some jwtCache' \<rparr>) now)"

section \<open>The pending-challenge store (src/src/shared/crypto.ts, lines 237-315)\<close>

text \<open>
  A JavaScript object used as a dictionary is an association list in insertion order.
  An assignment \<open>obj[k] = v\<close> replaces the value of an own key or appends the key; the key
  \<open>__proto__\<close> names the prototype, and assigning to it adds no own property.
\<close>

definition obj_set :: "string \<Rightarrow> 'v \<Rightarrow> (string \<times> 'v) list \<Rightarrow> (string \<times> 'v) list" where
  "obj_set k v obj = (if k = ''__proto__'' then obj else AList.update k v obj)"

definition PENDING_CHALLENGE_TTL_MS :: int where
  "PENDING_CHALLENGE_TTL_MS = 10 * 60 * 1000"

definition MIN_LOCK_MINUTES :: int where "MIN_LOCK_MINUTES = 1"
definition MAX_LOCK_MINUTES :: int where "MAX_LOCK_MINUTES = 1440"
definition DEFAULT_LOCK_MINUTES :: int where "DEFAULT_LOCK_MINUTES = 15"

definition normalizeLockDuration :: "jsnum option \<Rightarrow> int" where
  "normalizeLockDuration minutes =
     (case minutes of
        Some (Fin m) \<Rightarrow> min (max \<lfloor>m\<rfloor> MIN_LOCK_MINUTES) MAX_LOCK_MINUTES
      | _ \<Rightarrow> DEFAULT_LOCK_MINUTES)"

definition computeUnlockExpiry :: "jsnum option \<Rightarrow> int \<Rightarrow> int" where
  "computeUnlockExpiry minutes now =
     (let duration = normalizeLockDuration minutes in now + duration * 60 * 1000)"

text \<open>The test of the pruning loop: the entry has a truthy \<open>createdAt\<close> and is older than the TTL.\<close>

definition expired :: "int \<Rightarrow> PendingChallenge \<Rightarrow> bool" where
  "expired now entry = (createdAt entry \<noteq> 0 \<and> PENDING_CHALLENGE_TTL_MS < now - createdAt entry)"

definition pruneExpiredChallenges :: "Store \<Rightarrow> int \<Rightarrow> Store" where
  "pruneExpiredChallenges store now =
     (let (store1, state) = getState store False now;
          source = pendingChallenges state;
          changed = list_ex (\<lambda>(id, entry). expired now entry) source;
          pruned = filter (\<lambda>(id, entry). \<not> expired now entry) source
      in if changed
         then fst (setState store1 (no_update \<lparr> u_pendingChallenges := Some pruned \<rparr>) now)
         else store1)"

definition getPendingChallenges ::
  "Store \<Rightarrow> int \<Rightarrow> Store \<times> (string \<times> PendingChallenge) list" where
  "getPendingChallenges store now =
     (let store1 = pruneExpiredChallenges store now;
          (store2, state) = getState store1 False now
      in (store2, pendingChallenges state))"

definition savePendingChallenges :: "Store \<Rightarrow> (string \<times> PendingChallenge) list \<Rightarrow> int \<Rightarrow> Store" where
  "savePendingChallenges store pending now =
     fst (setState store (no_update \<lparr> u_pendingChallenges := Some pending \<rparr>) now)"

definition ensureChallengeStored ::
  "Store \<Rightarrow> ChallengeDetails \<Rightarrow> int option \<Rightarrow> int option \<Rightarrow> int \<Rightarrow> Store" where
  "ensureChallengeStored store ch tab win now =
     (let (store1, pending) = getPendingChallenges store now;
          pending' = obj_set (challengeId ch)
                       \<lparr> challenge = ch, tabId = tab, createdAt = now, windowId = win \<rparr> pending
      in savePendingChallenges store1 pending' now)"

definition clearChallenge :: "Store \<Rightarrow> string \<Rightarrow> int \<Rightarrow> Store" where
  "clearChallenge store cid now =
     (let (store1, pending) = getPendingChallenges store now
      in savePendingChallenges store1 (AList.delete cid pending) now)"


definition setExtensionStatus :: "Store \<Rightarrow> ExtensionStatus \<Rightarrow> int \<Rightarrow> Store" where
  "setExtensionStatus store st now =
     fst (setState store (no_update \<lparr> u_extensionStatus := Some st \<rparr>) now)"

text \<open>
  \<open>withExtensionStatus\<close>: the result of \<open>fn\<close>, a value or a thrown error, passes through;
  the status is reset to idle in both cases when it is still the one that was set.
\<close>

definition withExtensionStatus ::
  "Store \<Rightarrow> ExtensionStatus \<Rightarrow> (Store \<Rightarrow> Store \<times> 'r) \<Rightarrow> int \<Rightarrow> Store \<times> 'r" where
  "withExtensionStatus store st fn now =
     (let store1 = setExtensionStatus store st now;
          (store2, result) = fn store1;
          (store3, current) = getState store2 False now;
          store4 = (if extensionStatus current = st then setExtensionStatus store3 idle now
                    else store3)
      in (store4, result))"

section \<open>Strings\<close>

text \<open>
  Strings are sequences of 8-bit characters, the code units up to 255 that a header value
  is made of. The white space of \<open>trim\<close> and of the regular expressions' \<open>\s\<close> is, in
  that range: tab, line feed, vertical tab, form feed, carriage return, space and no-break
  space. \<open>toLowerCase\<close> maps the letters \<open>A\<close> to \<open>Z\<close> and the Latin-1 capitals (192
  to 222 but the multiplication sign 215) to the character 32 places further.
  \<open>toUpperCase\<close> takes some characters of that range out of it and is left to the
  platform (\<open>String_toUpperCase\<close> below).
\<close>

definition is_space :: "char \<Rightarrow> bool" where
  "is_space c = (c \<in> set [CHR 0x09, CHR 0x0A, CHR 0x0B, CHR 0x0C, CHR 0x0D, CHR 0x20, CHR 0xA0])"

definition trim :: "string \<Rightarrow> string" where
  "trim s = rev (dropWhile is_space (rev (dropWhile is_space s)))"

definition toLowerCase_char :: "char \<Rightarrow> char" where
  "toLowerCase_char c =
     (let n = (of_char c :: nat)
      in if (65 \<le> n \<and> n \<le> 90) \<or> (192 \<le> n \<and> n \<le> 222 \<and> n \<noteq> 215) then char_of (n + 32)
         else c)"

definition toLowerCase :: "string \<Rightarrow> string" where
  "toLowerCase s = map toLowerCase_char s"

text \<open>\<open>String(n)\<close> for an integer \<open>n\<close>, in decimal (below the \<open>1e21\<close> where JavaScript
  switches to exponents).\<close>

fun digits10 :: "nat \<Rightarrow> string" where
  "digits10 n =
     (if n < 10 then [''0123456789'' ! n]
      else digits10 (n div 10) @ [''0123456789'' ! (n mod 10)])"

definition string_of_int :: "int \<Rightarrow> string" where
  "string_of_int i = (if i < 0 then CHR ''-'' # digits10 (nat (- i)) else digits10 (nat i))"

text \<open>\<open>ethers.hexlify\<close> on bytes: \<open>0x\<close> and two lower-case hexadecimal digits a byte.\<close>

definition hex_byte :: "8 word \<Rightarrow> string" where
  "hex_byte b = [''0123456789abcdef'' ! (unat b div 16), ''0123456789abcdef'' ! (unat b mod 16)]"

definition hexlify :: "8 word list \<Rightarrow> string" where
  "hexlify bytes = ''0x'' @ concat (map hex_byte bytes)"

section \<open>The platform\<close>

text \<open>
  What the code calls and does not define: the built-ins of the JavaScript runtime, the
  browser's extension API and the \<open>ethers\<close> library. They are parameters of the model;
  a call that can throw returns an option or a sum.
\<close>

record TypedDomain =
  dom_name :: string
  dom_version :: string
  dom_chainId :: jsnum
  verifyingContract :: json

record Authorization =
  auth_from :: string
  auth_to :: string
  auth_value :: string
  validAfter :: string
  validBefore :: string
  nonce :: string

record EncryptedPayload =
  cipherText :: string
  salt :: string
  iv :: string

record Platform =
  JSON_parse :: "string \<Rightarrow> json option"
  JSON_stringify :: "json \<Rightarrow> string"
  atob :: "string \<Rightarrow> string option"
  btoa :: "string \<Rightarrow> string"
  Number_string :: "string \<Rightarrow> jsnum"
  Number_object :: "json \<Rightarrow> jsnum"
  Number_add :: "jsnum \<Rightarrow> jsnum \<Rightarrow> jsnum"
  String_number :: "jsnum \<Rightarrow> string"
  String_object :: "json \<Rightarrow> string"
  String_toUpperCase :: "string \<Rightarrow> string"
  randomUUID :: string
  randomBytes :: "nat \<Rightarrow> 8 word list"
  signTypedData :: "string \<Rightarrow> TypedDomain \<Rightarrow> Authorization \<Rightarrow> string + string"
  wallet_address :: "string \<Rightarrow> string option"
  encryptSecret :: "string \<Rightarrow> string \<Rightarrow> EncryptedPayload"
  decryptSecret :: "EncryptedPayload \<Rightarrow> string \<Rightarrow> string option"
  windows_create :: "string \<Rightarrow> int option option"
  runtime_getURL :: "string \<Rightarrow> string"
  toISODate :: "int \<Rightarrow> string"

text \<open>\<open>Number(v)\<close> and \<open>String(v)\<close> on a value that is not \<open>undefined\<close>.\<close>

definition toNumber :: "Platform \<Rightarrow> json \<Rightarrow> jsnum" where
  "toNumber P v =
     (case v of
        JNull \<Rightarrow> Fin 0
      | JBool b \<Rightarrow> Fin (if b then 1 else 0)
      | JNum n \<Rightarrow> n
      | JStr s \<Rightarrow> Number_string P s
      | _ \<Rightarrow> Number_object P v)"

definition toString :: "Platform \<Rightarrow> json \<Rightarrow> string" where
  "toString P v =
     (case v of
        JNull \<Rightarrow> ''null''
      | JBool b \<Rightarrow> (if b then ''true'' else ''false'')
      | JNum n \<Rightarrow> String_number P n
      | JStr s \<Rightarrow> s
      | _ \<Rightarrow> String_object P v)"

text \<open>Reading a property of a value: only an object has the properties the code reads.\<close>

definition get_prop :: "json option \<Rightarrow> string \<Rightarrow> json option" where
  "get_prop v k = (case v of Some (JObj kvs) \<Rightarrow> map_of kvs k | _ \<Rightarrow> None)"

section \<open>The policy engine (src/src/shared/crypto.ts, lines 527-561)\<close>

text \<open>
  \<open>reduce\<close> adds the amounts from left to right, starting from 0, with the addition of
  the platform.
\<close>

definition spentInLast24h :: "Platform \<Rightarrow> ExtensionState \<Rightarrow> int \<Rightarrow> jsnum" where
  "spentInLast24h P state now =
     (let cutoff = now - 24 * 60 * 60 * 1000
      in foldl (\<lambda>sum record. Number_add P sum (pr_amountUsd record)) (Fin 0)
           (filter (\<lambda>record. status record = status_success \<and> autoApproved record
                              \<and> cutoff \<le> timestamp record)
                   (history state)))"

definition shouldAutoApprove :: "Platform \<Rightarrow> ExtensionState \<Rightarrow> ChallengeDetails \<Rightarrow> int \<Rightarrow> bool" where
  "shouldAutoApprove P state ch now =
     (let policy = map_of (policies state) (origin ch) in
      if (case policy of Some p \<Rightarrow> mode p = mode_deny | None \<Rightarrow> False) then False
      else
        let threshold = thresholdUsd (settings state) in
        if js_gt (amountUsd ch) threshold then False
        else if promptRequired (settings state) then False
        else if (case policy of Some p \<Rightarrow> allowUnderThreshold p = False | None \<Rightarrow> False) then False
        else if (case policy of
                   Some p \<Rightarrow>
                     (case capUsd p of
                        Some c \<Rightarrow> js_gt c (Fin 0)
                                  \<and> js_gt (Number_add P (lifetimeUsd p) (amountUsd ch)) c
                      | None \<Rightarrow> False)
                 | None \<Rightarrow> False) then False
        else
          let cap = dailyAutoCapUsd (settings state) in
          if js_gt cap (Fin 0)
             \<and> js_gt (Number_add P (spentInLast24h P state now) (amountUsd ch)) cap then False
          else True)"

text \<open>
  The decision rule as the design document words it: \<open>decide(settings, policy?,
  spendHistory, challenge)\<close>, six reasons to defer tried in order, approve otherwise.
  The sum of rule 6 runs over the records that are successful, auto-approved and at most
  24 hours old, in the order of the history; sums are sums of doubles, taken with the
  addition of the platform.
\<close>

datatype decision = Approve | Defer

fun sum_from :: "Platform \<Rightarrow> jsnum \<Rightarrow> jsnum list \<Rightarrow> jsnum" where
  "sum_from P acc [] = acc"
| "sum_from P acc (x # xs) = sum_from P (Number_add P acc x) xs"

definition auto_success_spend_24h :: "Platform \<Rightarrow> PaymentRecord list \<Rightarrow> int \<Rightarrow> jsnum" where
  "auto_success_spend_24h P spendHistory now =
     sum_from P (Fin 0) (map pr_amountUsd
       (filter (\<lambda>r. status r = status_success \<and> autoApproved r = True
                     \<and> now - timestamp r \<le> 24 * 60 * 60 * 1000) spendHistory))"

definition rule_site_deny :: "SitePolicy option \<Rightarrow> bool" where
  "rule_site_deny policy = (case policy of None \<Rightarrow> False | Some p \<Rightarrow> mode p = mode_deny)"

definition rule_over_threshold :: "ExtensionSettings \<Rightarrow> ChallengeDetails \<Rightarrow> bool" where
  "rule_over_threshold s ch = js_gt (amountUsd ch) (thresholdUsd s)"

definition rule_prompt_required :: "ExtensionSettings \<Rightarrow> bool" where
  "rule_prompt_required s = promptRequired s"

definition rule_not_allowed_under_threshold :: "SitePolicy option \<Rightarrow> bool" where
  "rule_not_allowed_under_threshold policy =
     (case policy of None \<Rightarrow> False | Some p \<Rightarrow> \<not> allowUnderThreshold p)"

definition rule_lifetime_cap :: "Platform \<Rightarrow> SitePolicy option \<Rightarrow> ChallengeDetails \<Rightarrow> bool" where
  "rule_lifetime_cap P policy ch =
     (case policy of
        None \<Rightarrow> False
      | Some p \<Rightarrow>
          (case capUsd p of
             None \<Rightarrow> False
           | Some c \<Rightarrow> js_gt c (Fin 0)
                       \<and> js_gt (Number_add P (lifetimeUsd p) (amountUsd ch)) c))"

definition rule_daily_cap ::
  "Platform \<Rightarrow> ExtensionSettings \<Rightarrow> PaymentRecord list \<Rightarrow> ChallengeDetails \<Rightarrow> int \<Rightarrow> bool" where
  "rule_daily_cap P s spendHistory ch now =
     (js_gt (dailyAutoCapUsd s) (Fin 0)
      \<and> js_gt (Number_add P (auto_success_spend_24h P spendHistory now) (amountUsd ch))
               (dailyAutoCapUsd s))"

definition decide_spec ::
  "Platform \<Rightarrow> ExtensionSettings \<Rightarrow> SitePolicy option \<Rightarrow> PaymentRecord list
     \<Rightarrow> ChallengeDetails \<Rightarrow> int \<Rightarrow> decision" where
  "decide_spec P s policy spendHistory ch now =
     (if rule_site_deny policy then Defer
      else if rule_over_threshold s ch then Defer
      else if rule_prompt_required s then Defer
      else if rule_not_allowed_under_threshold policy then Defer
      else if rule_lifetime_cap P policy ch then Defer
      else if rule_daily_cap P s spendHistory ch now then Defer
      else Approve)"

section \<open>The authorization builder (src/src/shared/crypto.ts, lines 172-235 and 625-692)\<close>

datatype thrown = WalletLockedError string | OtherError string

definition mapChainId :: "jsnum \<Rightarrow> ChainId option" where
  "mapChainId c = (if c = Fin 137 then Some polygon else if c = Fin 80002 then Some polygonAmoy else None)"

definition CHAIN_ID_BY_SETTING :: "ChainId \<Rightarrow> jsnum" where
  "CHAIN_ID_BY_SETTING c = (case c of polygon \<Rightarrow> Fin 137 | polygonAmoy \<Rightarrow> Fin 80002)"

definition canonicalNetworkForChain :: "jsnum option \<Rightarrow> string option" where
  "canonicalNetworkForChain c =
     (case c of
        Some n \<Rightarrow>
          if \<not> isFinite n then None
          else if n = Fin 137 then Some ''polygon''
          else if n = Fin 80002 then Some ''polygon-amoy''
          else None
      | None \<Rightarrow> None)"

text \<open>A string property that is not blank, trimmed; and a number property.\<close>

definition nonblank_string :: "json option \<Rightarrow> string option" where
  "nonblank_string v =
     (case v of Some (JStr s) \<Rightarrow> (if trim s \<noteq> [] then Some (trim s) else None) | _ \<Rightarrow> None)"

definition number_value :: "json option \<Rightarrow> jsnum option" where
  "number_value v = (case v of Some (JNum n) \<Rightarrow> Some n | _ \<Rightarrow> None)"

definition is_exact_entry :: "json \<Rightarrow> bool" where
  "is_exact_entry entry = (get_prop (Some entry) ''scheme'' = Some (JStr ''exact''))"

text \<open>\<open>a ?? b\<close> on an option.\<close>

definition orElse :: "'a option \<Rightarrow> 'a option \<Rightarrow> 'a option" where
  "orElse a b = (case a of Some x \<Rightarrow> Some x | None \<Rightarrow> b)"

definition normalizeNetworkDescriptor ::
  "Platform \<Rightarrow> ChallengeDetails \<Rightarrow> ExtensionSettings \<Rightarrow> string \<times> nat" where
  "normalizeNetworkDescriptor P ch s =
     (let raw = rawChallenge ch;
          accepts = (case get_prop raw ''accepts'' of Some (JArr xs) \<Rightarrow> xs | _ \<Rightarrow> []);
          firstAccept = find is_exact_entry accepts;
          fromChallengeField =
            (case network ch of
               Some n \<Rightarrow> (if trim n \<noteq> [] then Some (trim n) else None)
             | None \<Rightarrow> None);
          fromAccepts = nonblank_string (get_prop firstAccept ''network'');
          fromRaw = nonblank_string (get_prop raw ''network'');
          descriptor =
            (case orElse fromChallengeField (orElse fromAccepts (orElse fromRaw
                    (if isFinite (chainId ch) \<and> js_gt (chainId ch) (Fin 0)
                     then Some (''eip155:'' @ String_number P (chainId ch))
                     else canonicalNetworkForChain (Some (CHAIN_ID_BY_SETTING (chain s)))))) of
               Some d \<Rightarrow> d
             | None \<Rightarrow> ''eip155:'' @ String_number P (chainId ch));
          hintedVersionRaw =
            orElse (x402Version ch)
              (orElse (number_value (get_prop raw ''x402Version''))
                 (orElse (number_value (get_prop firstAccept ''x402Version''))
                    (number_value (get_prop raw ''version''))));
          hintedVersion =
            (if hintedVersionRaw = Some (Fin 2) then Some (2::nat)
             else if hintedVersionRaw = Some (Fin 1) then Some 1
             else None);
          derivedVersion = (if CHR '':'' \<in> set descriptor then (2::nat) else 1);
          version = (case hintedVersion of Some v \<Rightarrow> v | None \<Rightarrow> derivedVersion)
      in (descriptor, if version = 2 then 2 else 1))"

definition encodeBase64 :: "Platform \<Rightarrow> string \<Rightarrow> string" where
  "encodeBase64 P v = btoa P v"

text \<open>The JSON object of the retry header, as \<open>createAuthorization\<close> builds it.\<close>

definition authorization_json :: "Authorization \<Rightarrow> json" where
  "authorization_json a =
     JObj [(''from'', JStr (auth_from a)), (''to'', JStr (auth_to a)),
           (''value'', JStr (auth_value a)), (''validAfter'', JStr (validAfter a)),
           (''validBefore'', JStr (validBefore a)), (''nonce'', JStr (nonce a))]"

definition xPaymentHeaderObj :: "nat \<Rightarrow> string \<Rightarrow> Authorization \<Rightarrow> string \<Rightarrow> json" where
  "xPaymentHeaderObj version networkDescriptor a signature =
     JObj [(''x402Version'', JNum (Fin (real version))),
           (''scheme'', JStr ''exact''),
           (''network'', JStr networkDescriptor),
           (''payload'', JObj [(''authorization'', authorization_json a),
                               (''signature'', JStr signature)])]"

record AuthorizationResult =
  ar_paymentId :: string
  xPaymentHeader :: string
  ar_authorization :: Authorization

text \<open>
  \<open>createAuthorization\<close>. Constructing the signer and signing are one call of the
  platform, which throws (\<open>Inl\<close>) on a malformed key, address or amount. The result also
  carries the authorization that was signed, which the code keeps only inside the header.
\<close>

definition createAuthorization ::
  "Platform \<Rightarrow> WalletData \<Rightarrow> ExtensionSettings \<Rightarrow> ChallengeDetails \<Rightarrow> int
     \<Rightarrow> string + AuthorizationResult" where
  "createAuthorization P w s ch now_ms =
     (case map_option trim (privateKey w) of
        None \<Rightarrow> Inl ''Wallet missing private key''
      | Some key \<Rightarrow>
          if key = [] then Inl ''Wallet missing private key''
          else
            let now = now_ms div 1000;
                validAfter' = now - 5;
                validBefore' = now + 120;
                nonce' = hexlify (randomBytes P 32);
                domain = \<lparr> dom_name = (case tokenName ch of Some n \<Rightarrow> n | None \<Rightarrow> ''USD Coin''),
                           dom_version = (case tokenVersion ch of Some v \<Rightarrow> v | None \<Rightarrow> ''2''),
                           dom_chainId = chainId ch,
                           verifyingContract = tokenAddress ch \<rparr>;
                authorization = \<lparr> auth_from = address w, auth_to = seller ch,
                                  auth_value = amountAtomic ch,
                                  validAfter = string_of_int validAfter',
                                  validBefore = string_of_int validBefore',
                                  nonce = nonce' \<rparr>
            in (case signTypedData P key domain authorization of
                  Inl err \<Rightarrow> Inl err
                | Inr signature \<Rightarrow>
                    let (networkDescriptor, version) = normalizeNetworkDescriptor P ch s;
                        headerJson =
                          JSON_stringify P
                            (xPaymentHeaderObj version networkDescriptor authorization signature);
                        headerValue = encodeBase64 P headerJson
                    in Inr \<lparr> ar_paymentId = challengeId ch, xPaymentHeader = headerValue,
                             ar_authorization = authorization \<rparr>))"

section \<open>Payment processing and the challenge handler (src/src/shared/crypto.ts, lines 509-611 and 694-788)\<close>

definition createDefaultPolicy :: "Platform \<Rightarrow> string \<Rightarrow> int \<Rightarrow> SitePolicy" where
  "createDefaultPolicy P orig now =
     (let today = toISODate P now
      in \<lparr> sp_origin = orig, allowUnderThreshold = False, mode = mode_ask, capUsd = None,
           lifetimeUsd = Fin 0, dailyUsd = Fin 0, lastResetISO = today \<rparr>)"

definition incrementPolicySpend :: "Platform \<Rightarrow> Store \<Rightarrow> string \<Rightarrow> jsnum \<Rightarrow> int \<Rightarrow> Store" where
  "incrementPolicySpend P store orig amount now =
     (let (store1, state) = getState store False now;
          policy0 = (case map_of (policies state) orig of
                       Some p \<Rightarrow> p
                     | None \<Rightarrow> createDefaultPolicy P orig now);
          today = toISODate P now;
          policy1 = (if lastResetISO policy0 \<noteq> today
                     then policy0 \<lparr> dailyUsd := Fin 0, lastResetISO := today \<rparr>
                     else policy0);
          policy2 = policy1 \<lparr> dailyUsd := Number_add P (dailyUsd policy1) amount,
                              lifetimeUsd := Number_add P (lifetimeUsd policy1) amount \<rparr>
      in fst (setState store1
                (no_update \<lparr> u_policies := Some (AList.update orig policy2 (policies state)) \<rparr>) now))"

definition recordPayment :: "Store \<Rightarrow> PaymentRecord \<Rightarrow> int \<Rightarrow> Store" where
  "recordPayment store record now =
     (let (store1, _) = addHistory store record now;
          (store2, _) = pruneJwtCache store1 now
      in store2)"

text \<open>
  \<open>processPayment\<close>. The result is the new store and either the error thrown or the
  resolution returned.
\<close>

definition processPayment ::
  "Platform \<Rightarrow> Store \<Rightarrow> ChallengeDetails \<Rightarrow> bool \<Rightarrow> int
     \<Rightarrow> Store \<times> (thrown + ChallengeResolution)" where
  "processPayment P store ch autoApproved' now =
     (let (store1, state) = getState store True now in
      case wallet state of
        None \<Rightarrow>
          (store1, Inr \<lparr> action = action_error, message = Some ''Wallet not configured'',
                         retryHeaders = None, res_challengeId = None \<rparr>)
      | Some w \<Rightarrow>
          if \<not> str_truthy (privateKey w) \<or> \<not> time_truthy (lockedUntil w)
             \<or> (case lockedUntil w of Some t \<Rightarrow> t \<le> now | None \<Rightarrow> False)
          then
            (fst (setState store1
                    (no_update \<lparr> u_wallet := Some (Some (w \<lparr> privateKey := None,
                                                               lockedUntil := Some 0 \<rparr>)) \<rparr>) now),
             Inl (WalletLockedError ''Wallet locked''))
          else
            (case createAuthorization P w (settings state) ch now of
               Inr result \<Rightarrow>
                 let record = \<lparr> pr_id = ar_paymentId result, pr_origin = origin ch,
                                pr_endpoint = endpoint ch, pr_amountUsd = amountUsd ch,
                                pr_tokenSymbol = tokenSymbol ch, timestamp = now,
                                status = status_pending, autoApproved = autoApproved',
                                txHash = None, pr_note = None \<rparr>;
                     store2 = recordPayment store1 record now;
                     store3 = incrementPolicySpend P store2 (origin ch) (amountUsd ch) now;
                     renewedUntil = computeUnlockExpiry (lockDurationMinutes w) now;
                     store4 = fst (setState store3
                                (no_update \<lparr> u_wallet :=
                                   Some (Some (w \<lparr> privateKey := privateKey w,
                                                    lockedUntil := Some renewedUntil \<rparr>)) \<rparr>) now)
                 in (store4,
                     Inr \<lparr> action = action_retry, message = None,
                           retryHeaders = Some [(''X-PAYMENT'', xPaymentHeader result),
                                                (''X-PAYMENT-ID'', ar_paymentId result)],
                           res_challengeId = None \<rparr>)
             | Inl err \<Rightarrow>
                 let record = \<lparr> pr_id = challengeId ch, pr_origin = origin ch,
                                pr_endpoint = endpoint ch, pr_amountUsd = amountUsd ch,
                                pr_tokenSymbol = tokenSymbol ch, timestamp = now,
                                status = status_error, autoApproved = autoApproved',
                                txHash = None, pr_note = Some err \<rparr>;
                     store2 = recordPayment store1 record now;
                     store3 = fst (setState store2
                                (no_update \<lparr> u_wallet :=
                                   Some (Some (w \<lparr> privateKey := privateKey w,
                                                    lockedUntil :=
                                                      Some (computeUnlockExpiry
                                                              (lockDurationMinutes w) now) \<rparr>)) \<rparr>)
                                now)
                 in (store3,
                     Inr \<lparr> action = action_error, message = Some ''Auto payment failed'',
                           retryHeaders = None, res_challengeId = None \<rparr>)))"

text \<open>
  \<open>handleChallenge\<close>. The balance refresh it starts and does not await is a network call
  of the balance collaborator and is left out. Opening the prompt window may throw, which
  the code logs and ignores.
\<close>

definition handleChallenge ::
  "Platform \<Rightarrow> Store \<Rightarrow> ChallengeDetails \<Rightarrow> int option \<Rightarrow> int
     \<Rightarrow> Store \<times> (thrown + ChallengeResolution)" where
  "handleChallenge P store ch senderTab now =
     (let (store1, state0) = getState store False now;
          mappedChain = mapChainId (chainId ch);
          changeChain = (case mappedChain of
                           Some c \<Rightarrow> c \<noteq> chain (settings state0)
                         | None \<Rightarrow> False);
          store2 = (case mappedChain of
                      Some c \<Rightarrow>
                        if changeChain
                        then fst (updateSettings store1
                                    \<lparr> p_thresholdUsd = None, p_dailyAutoCapUsd = None,
                                      p_preferredToken = None, p_chain = Some c,
                                      p_promptRequired = None \<rparr> now)
                        else store1
                    | None \<Rightarrow> store1);
          state = (case mappedChain of
                     Some c \<Rightarrow>
                       if changeChain then state0 \<lparr> settings := (settings state0) \<lparr> chain := c \<rparr> \<rparr>
                       else state0
                   | None \<Rightarrow> state0);
          store3 = ensureChallengeStored store2 ch senderTab None now;
          prompt = (\<lambda>st.
             let promptUrl = runtime_getURL P ''prompt.html'' @ ''#'' @ challengeId ch;
                 st' = (case windows_create P promptUrl of
                          Some promptWindowId \<Rightarrow> ensureChallengeStored st ch senderTab promptWindowId now
                        | None \<Rightarrow> st)
             in (st', Inr \<lparr> action = action_pending, message = None, retryHeaders = None,
                            res_challengeId = Some (challengeId ch) \<rparr>))
      in if shouldAutoApprove P state ch now then
           (case withExtensionStatus store3 paying (\<lambda>st. processPayment P st ch True now) now of
              (store4, Inr resolution) \<Rightarrow> (store4, Inr resolution)
            | (store4, Inl (WalletLockedError m)) \<Rightarrow> prompt store4
            | (store4, Inl (OtherError m)) \<Rightarrow> (store4, Inl (OtherError m)))
         else prompt store3)"

section \<open>The wallet operations of the message bus (src/src/shared/crypto.ts, lines 1035-1104)\<close>

text \<open>
  \<open>x402:unlockWallet\<close> and \<open>x402:lockWallet\<close>. The response is the wallet sent back, or
  an error message.
\<close>

definition addresses_match :: "string \<Rightarrow> string \<Rightarrow> bool" where
  "addresses_match a b = (toLowerCase a = toLowerCase b)"

definition unlockWallet ::
  "Platform \<Rightarrow> Store \<Rightarrow> string option \<Rightarrow> jsnum option \<Rightarrow> int
     \<Rightarrow> Store \<times> (string + WalletData option)" where
  "unlockWallet P store passphrase lockDurationMinutes' now =
     (case passphrase of
        None \<Rightarrow> (store, Inl ''Passphrase required'')
      | Some pw \<Rightarrow>
          if pw = [] then (store, Inl ''Passphrase required'')
          else
            let (store1, state) = getState store False now in
            (case wallet state of
               None \<Rightarrow> (store1, Inl ''Wallet not configured'')
             | Some w \<Rightarrow>
                 if \<not> str_truthy (encryptedPrivateKey w) \<or> \<not> str_truthy (encryptionIv w)
                    \<or> \<not> str_truthy (encryptionSalt w)
                 then (store1, Inl ''Wallet not configured'')
                 else
                   (case decryptSecret P
                           \<lparr> cipherText = the (encryptedPrivateKey w),
                             salt = the (encryptionSalt w), iv = the (encryptionIv w) \<rparr> pw of
                      None \<Rightarrow> (store1, Inl ''Incorrect passphrase'')
                    | Some decrypted \<Rightarrow>
                        let trimmedKey = trim decrypted in
                        (case wallet_address P trimmedKey of
                           None \<Rightarrow> (store1, Inl ''Incorrect passphrase'')
                         | Some signerAddress \<Rightarrow>
                             if \<not> addresses_match signerAddress (address w)
                             then (store1, Inl ''Incorrect passphrase'')
                             else
                               let duration = normalizeLockDuration
                                                (orElse lockDurationMinutes' (lockDurationMinutes w));
                                   lockedUntil' = computeUnlockExpiry (Some (Fin (real_of_int duration))) now;
                                   updatedWallet = w \<lparr> privateKey := Some trimmedKey,
                                                       lockDurationMinutes := Some (Fin (real_of_int duration)),
                                                       lockedUntil := Some lockedUntil' \<rparr>;
                                   (store2, updated) =
                                      setState store1 (no_update \<lparr> u_wallet := Some (Some updatedWallet) \<rparr>) now
                               in (store2, Inr (sanitizeWalletForPersist (wallet updated)))))))"

definition lockWallet :: "Store \<Rightarrow> int \<Rightarrow> Store \<times> WalletData option" where
  "lockWallet store now =
     (let (store1, state) = getState store False now in
      case wallet state of
        None \<Rightarrow> (store1, None)
      | Some w \<Rightarrow>
          let lockedWallet = w \<lparr> privateKey := None, lockedUntil := Some 0 \<rparr>;
              (store2, updated) = setState store1 (no_update \<lparr> u_wallet := Some (Some lockedWallet) \<rparr>) now
          in (store2, wallet updated))"

section \<open>The challenge parser (src/unnamed/part_002)\<close>

definition HEADER_CHALLENGE_JSON :: string where
  "HEADER_CHALLENGE_JSON = ''x-payment-challenge''"

definition HEADER_ID :: string where
  "HEADER_ID = ''x-402-id''"

text \<open>
  \<open>HeaderSource\<close>: an object with a \<open>get\<close> and a \<open>forEach\<close>; the latter is the list of the
  (key, value) pairs it visits, in order.
\<close>

record HeaderSource =
  headers_get :: "string \<Rightarrow> string option"
  headers_forEach :: "(string \<times> string) list"

record RequestInfo =
  ri_origin :: string
  ri_endpoint :: string
  ri_method :: string

definition baseDetails :: "Platform \<Rightarrow> HeaderSource \<Rightarrow> (string \<times> string) list \<times> string" where
  "baseDetails P headers =
     (let rawHeaders' = foldl (\<lambda>acc (key, v). obj_set (toLowerCase key) v acc) []
                          (headers_forEach headers);
          challengeId' =
            (case orElse (headers_get headers HEADER_ID) (map_of rawHeaders' HEADER_ID) of
               Some i \<Rightarrow> i
             | None \<Rightarrow> randomUUID P)
      in (rawHeaders', challengeId'))"

definition fromJsonChallenge ::
  "Platform \<Rightarrow> string \<Rightarrow> RequestInfo \<Rightarrow> (string \<times> string) list \<Rightarrow> string
     \<Rightarrow> ChallengeDetails option" where
  "fromJsonChallenge P challengeJson requestInfo rawHeaders' fallbackId =
     (case JSON_parse P challengeJson of
        None \<Rightarrow> None
      | Some parsed \<Rightarrow>
          if \<not> truthy (Some parsed) \<or> \<not> (case parsed of JObj _ \<Rightarrow> True | JArr _ \<Rightarrow> True | _ \<Rightarrow> False)
          then None
          else
            let amount = get_prop (Some parsed) ''amount'';
                amountUsd' = get_prop (Some parsed) ''amountUsd'';
                token = get_prop (Some parsed) ''token'';
                chainId' = get_prop (Some parsed) ''chainId'';
                seller' = get_prop (Some parsed) ''seller'';
                tokenAddress' = get_prop (Some parsed) ''tokenAddress'';
                tokenName' = get_prop (Some parsed) ''tokenName'';
                tokenVersion' = get_prop (Some parsed) ''tokenVersion'';
                tokenDecimals' = get_prop (Some parsed) ''tokenDecimals'';
                id' = get_prop (Some parsed) ''id'';
                atomic = (case amount of
                            Some (JStr s) \<Rightarrow> s
                          | Some JNull \<Rightarrow> ''0''
                          | None \<Rightarrow> ''0''
                          | Some v \<Rightarrow> toString P v);
                requestAmountUsd = (case amountUsd' of
                                      Some (JNum n) \<Rightarrow> n
                                    | Some JNull \<Rightarrow> Fin 0
                                    | None \<Rightarrow> Fin 0
                                    | Some v \<Rightarrow> toNumber P v);
                tokenSymbol' = (case token of Some (JStr s) \<Rightarrow> String_toUpperCase P s | _ \<Rightarrow> ''USDC'');
                chain' = (case chainId' of
                            Some (JNum n) \<Rightarrow> n
                          | Some JNull \<Rightarrow> Fin 0
                          | None \<Rightarrow> Fin 0
                          | Some v \<Rightarrow> toNumber P v)
            in (case (tokenAddress', seller') of
                  (Some ta, Some (JStr sl)) \<Rightarrow>
                    if \<not> num_truthy chain' \<or> \<not> truthy (Some ta) then None
                    else
                      Some \<lparr> amountUsd = (if isFinite requestAmountUsd then requestAmountUsd else Fin 0),
                             tokenSymbol = tokenSymbol',
                             challengeId = (case id' of Some (JStr s) \<Rightarrow> s | _ \<Rightarrow> fallbackId),
                             endpoint = ri_endpoint requestInfo,
                             origin = ri_origin requestInfo,
                             rawHeaders = rawHeaders',
                             http_method = ri_method requestInfo,
                             chainId = chain',
                             network = None,
                             tokenAddress = ta,
                             seller = sl,
                             amountAtomic = atomic,
                             tokenName = (case tokenName' of Some (JStr s) \<Rightarrow> Some s | _ \<Rightarrow> None),
                             tokenVersion = (case tokenVersion' of Some (JStr s) \<Rightarrow> Some s | _ \<Rightarrow> None),
                             tokenDecimals = (case tokenDecimals' of Some (JNum n) \<Rightarrow> Some n | _ \<Rightarrow> None),
                             x402Version = None,
                             rawChallenge = Some parsed \<rparr>
                | _ \<Rightarrow> None))"

text \<open>The pattern \<open>/^[A-Za-z0-9+/=]+$/\<close>.\<close>

definition is_base64_char :: "char \<Rightarrow> bool" where
  "is_base64_char c =
     (let n = (of_char c :: nat)
      in (65 \<le> n \<and> n \<le> 90) \<or> (97 \<le> n \<and> n \<le> 122) \<or> (48 \<le> n \<and> n \<le> 57)
         \<or> c = CHR ''+'' \<or> c = CHR ''/'' \<or> c = CHR ''='')"

definition base64Pattern_test :: "string \<Rightarrow> bool" where
  "base64Pattern_test s = (s \<noteq> [] \<and> list_all is_base64_char s)"

text \<open>The first attempt that parses, in the order of the loop.\<close>

fun first_challenge :: "(string \<Rightarrow> ChallengeDetails option) \<Rightarrow> string list \<Rightarrow> ChallengeDetails option" where
  "first_challenge f [] = None"
| "first_challenge f (attempt # attempts) =
     (case f attempt of Some c \<Rightarrow> Some c | None \<Rightarrow> first_challenge f attempts)"

definition challenge_attempts :: "Platform \<Rightarrow> string \<Rightarrow> string list" where
  "challenge_attempts P v =
     (let trimmed = trim v in
      if trimmed \<noteq> [] then
        [trimmed] @ (if base64Pattern_test trimmed
                     then (case atob P trimmed of Some decoded \<Rightarrow> [decoded] | None \<Rightarrow> [])
                     else [])
      else [])"

definition parseChallengeValue ::
  "Platform \<Rightarrow> string \<Rightarrow> RequestInfo \<Rightarrow> (string \<times> string) list \<Rightarrow> string
     \<Rightarrow> ChallengeDetails option" where
  "parseChallengeValue P v requestInfo rawHeaders' fallbackId =
     first_challenge (\<lambda>attempt. fromJsonChallenge P attempt requestInfo rawHeaders' fallbackId)
       (challenge_attempts P v)"

text \<open>
  The two regular expressions of \<open>fromAuthenticateChallenge\<close>, matched by hand.
  \<open>/^\s*(x-?402)\s+(.+)$/i\<close>: leading white space, the scheme, white space, and the rest
  of the string, which \<open>.\<close> matches when it holds no line terminator. When nothing
  follows the white space, backtracking leaves its last character to \<open>(.+)\<close>.
\<close>

definition is_line_terminator :: "char \<Rightarrow> bool" where
  "is_line_terminator c = (c = CHR 0x0A \<or> c = CHR 0x0D)"

definition strip_scheme :: "string \<Rightarrow> string option" where
  "strip_scheme s =
     (case s of
        [] \<Rightarrow> None
      | x # cs \<Rightarrow>
          if x = CHR ''x'' \<or> x = CHR ''X'' then
            (if take 4 cs = ''-402'' then Some (drop 4 cs)
             else if take 3 cs = ''402'' then Some (drop 3 cs)
             else None)
          else None)"

definition match_scheme :: "string \<Rightarrow> string option" where
  "match_scheme headerValue =
     (case strip_scheme (dropWhile is_space headerValue) of
        None \<Rightarrow> None
      | Some rest \<Rightarrow>
          let ws = takeWhile is_space rest; tail = dropWhile is_space rest in
          if ws = [] then None
          else if tail \<noteq> [] then (if list_ex is_line_terminator tail then None else Some tail)
          else if 2 \<le> length ws \<and> \<not> is_line_terminator (last ws) then Some [last ws]
          else None)"

text \<open>
  \<open>/\s*([a-zA-Z0-9_-]+)=(("[^"]*")|([^,]+))/g\<close> at the start of a string: the key, the
  raw value (group 3, quoted, or else group 4) and what follows the match.
\<close>

definition is_key_char :: "char \<Rightarrow> bool" where
  "is_key_char c =
     (let n = (of_char c :: nat)
      in (65 \<le> n \<and> n \<le> 90) \<or> (97 \<le> n \<and> n \<le> 122) \<or> (48 \<le> n \<and> n \<le> 57)
         \<or> c = CHR ''_'' \<or> c = CHR ''-'')"

definition match_param_at :: "string \<Rightarrow> (string \<times> string \<times> string) option" where
  "match_param_at s =
     (let s1 = dropWhile is_space s;
          key = takeWhile is_key_char s1
      in if key = [] then None
         else
           (case dropWhile is_key_char s1 of
              [] \<Rightarrow> None
            | c # r2 \<Rightarrow>
                if c \<noteq> CHR ''='' then None
                else
                  (case r2 of
                     [] \<Rightarrow> None
                   | q # r3 \<Rightarrow>
                       if q = CHR 0x22 \<and> dropWhile (\<lambda>x. x \<noteq> CHR 0x22) r3 \<noteq> [] then
                         Some (key,
                               [CHR 0x22] @ takeWhile (\<lambda>x. x \<noteq> CHR 0x22) r3 @ [CHR 0x22],
                               tl (dropWhile (\<lambda>x. x \<noteq> CHR 0x22) r3))
                       else if q = CHR '','' then None
                       else Some (key, takeWhile (\<lambda>x. x \<noteq> CHR '','') r2,
                                  dropWhile (\<lambda>x. x \<noteq> CHR '','') r2))))"

text \<open>\<open>exec\<close>: the leftmost match at or after the current position.\<close>

fun exec_param :: "string \<Rightarrow> (string \<times> string \<times> string) option" where
  "exec_param [] = None"
| "exec_param (c # cs) =
     (case match_param_at (c # cs) of
        Some m \<Rightarrow> Some m
      | None \<Rightarrow> exec_param cs)"

lemma length_dropWhile_bound: "length (dropWhile p xs) \<le> length xs"
  by (induction xs) auto

lemma match_param_at_shorter:
  assumes "match_param_at s = Some (k, raw, rest)"
  shows "length rest < length s"
proof -
  let ?s1 = "dropWhile is_space s"
  have a: "length ?s1 \<le> length s" by (rule length_dropWhile_bound)
  from assms obtain c r2 where r1: "dropWhile is_key_char ?s1 = c # r2"
    by (auto simp: match_param_at_def Let_def split: if_splits list.splits)
  have b: "length (dropWhile is_key_char ?s1) \<le> length ?s1" by (rule length_dropWhile_bound)
  have c: "length r2 < length s" using a b r1 by simp
  from assms r1 obtain q r3 where r2: "r2 = q # r3"
    by (auto simp: match_param_at_def Let_def split: if_splits list.splits)
  have d1: "length (dropWhile (\<lambda>x. x \<noteq> CHR 0x22) r3) \<le> length r3"
    by (rule length_dropWhile_bound)
  have d2: "length (dropWhile (\<lambda>x. x \<noteq> CHR '','') r2) \<le> length r2"
    by (rule length_dropWhile_bound)
  from assms r1 r2 have "rest = tl (dropWhile (\<lambda>x. x \<noteq> CHR 0x22) r3)
      \<or> rest = dropWhile (\<lambda>x. x \<noteq> CHR '','') r2"
    by (auto simp: match_param_at_def Let_def split: if_splits)
  then show ?thesis
  proof
    assume "rest = tl (dropWhile (\<lambda>x. x \<noteq> CHR 0x22) r3)"
    then have "length rest \<le> length r3" using d1 by simp
    then show ?thesis using c r2 by simp
  next
    assume "rest = dropWhile (\<lambda>x. x \<noteq> CHR '','') r2"
    then show ?thesis using d2 c by simp
  qed
qed

lemma exec_param_shorter:
  "exec_param s = Some (k, raw, rest) \<Longrightarrow> length rest < length s"
proof (induction s)
  case Nil
  then show ?case by simp
next
  case (Cons c cs)
  show ?case
  proof (cases "match_param_at (c # cs)")
    case None
    with Cons show ?thesis by simp
  next
    case (Some m)
    with Cons.prems have "match_param_at (c # cs) = Some (k, raw, rest)" by simp
    then show ?thesis by (rule match_param_at_shorter)
  qed
qed

text \<open>The \<open>while\<close> loop over \<open>exec\<close>: every match, from where the last one ended.\<close>

function exec_all :: "string \<Rightarrow> (string \<times> string) list" where
  "exec_all s =
     (case exec_param s of
        None \<Rightarrow> []
      | Some (key, raw, rest) \<Rightarrow> (key, raw) # exec_all rest)"
  by pat_completeness auto
termination
  by (relation "measure length") (auto dest: exec_param_shorter)

text \<open>\<open>raw.replace(/^"|"$/g, "")\<close>: a leading and a trailing double quote are removed.\<close>

definition strip_quotes :: "string \<Rightarrow> string" where
  "strip_quotes raw =
     (let r1 = (case raw of [] \<Rightarrow> [] | c # cs \<Rightarrow> if c = CHR 0x22 then cs else raw)
      in if r1 \<noteq> [] \<and> last r1 = CHR 0x22 then butlast r1 else r1)"

definition parse_params :: "string \<Rightarrow> (string \<times> string) list" where
  "parse_params paramsPart =
     foldl (\<lambda>params (key, raw). obj_set key (strip_quotes raw) params) [] (exec_all paramsPart)"

text \<open>\<open>a ?? b ?? c\<close> over the keys of an object, in order.\<close>

fun first_defined :: "(string \<times> 'v) list \<Rightarrow> string list \<Rightarrow> 'v option" where
  "first_defined obj [] = None"
| "first_defined obj (k # ks) = orElse (map_of obj k) (first_defined obj ks)"

definition fromAuthenticateChallenge ::
  "Platform \<Rightarrow> string \<Rightarrow> RequestInfo \<Rightarrow> (string \<times> string) list \<Rightarrow> string
     \<Rightarrow> ChallengeDetails option" where
  "fromAuthenticateChallenge P headerValue requestInfo rawHeaders' fallbackId =
     (case match_scheme headerValue of
        None \<Rightarrow> None
      | Some paramsPart \<Rightarrow>
          let params = parse_params paramsPart;
              challengeValue = first_defined params [''challenge'', ''payload''];
              fromValue = (case challengeValue of
                             Some v \<Rightarrow>
                               if v \<noteq> [] then parseChallengeValue P v requestInfo rawHeaders' fallbackId
                               else None
                           | None \<Rightarrow> None)
          in (case fromValue of
                Some parsed \<Rightarrow> Some parsed
              | None \<Rightarrow>
                  let amountUsdStr = first_defined params [''amountUsd'', ''amount_usd'', ''price'', ''cost''];
                      amountUsd' = (if str_truthy amountUsdStr
                                    then Number_string P (the amountUsdStr) else Fin 0);
                      tokenParam = (case first_defined params [''token'', ''tokenSymbol'', ''token_symbol''] of
                                      Some t \<Rightarrow> t
                                    | None \<Rightarrow> ''USDC'');
                      tokenSymbol' = String_toUpperCase P tokenParam;
                      seller' = first_defined params [''seller'', ''to''];
                      tokenAddress' = first_defined params [''tokenAddress'', ''token_address'', ''contract''];
                      chainRaw = first_defined params [''chainId'', ''chain_id'', ''chain''];
                      chainId' = (if str_truthy chainRaw then Number_string P (the chainRaw) else Fin 137);
                      amountAtomicParam = first_defined params [''amountAtomic'', ''amount_atomic'', ''amount'']
                  in if \<not> str_truthy seller' \<or> \<not> str_truthy tokenAddress'
                        \<or> \<not> str_truthy amountAtomicParam
                     then None
                     else
                       Some \<lparr> amountUsd = (if isFinite amountUsd' then amountUsd' else Fin 0),
                              tokenSymbol = tokenSymbol',
                              challengeId = (case map_of params ''id'' of
                                               Some i \<Rightarrow> if i \<noteq> [] then i else fallbackId
                                             | None \<Rightarrow> fallbackId),
                              endpoint = ri_endpoint requestInfo,
                              origin = ri_origin requestInfo,
                              rawHeaders = rawHeaders',
                              http_method = ri_method requestInfo,
                              chainId = (if isFinite chainId' then chainId' else Fin 137),
                              network = None,
                              tokenAddress = JStr (the tokenAddress'),
                              seller = the seller',
                              amountAtomic = the amountAtomicParam,
                              tokenName = None,
                              tokenVersion = None,
                              tokenDecimals = None,
                              x402Version = None,
                              rawChallenge = Some (JObj (map (\<lambda>(k, v). (k, JStr v)) params)) \<rparr>))"

definition parseChallengeHeaders ::
  "Platform \<Rightarrow> HeaderSource \<Rightarrow> RequestInfo \<Rightarrow> ChallengeDetails option" where
  "parseChallengeHeaders P headers requestInfo =
     (let (rawHeaders', challengeId') = baseDetails P headers;
          jsonHeader = orElse (headers_get headers HEADER_CHALLENGE_JSON)
                         (map_of rawHeaders' HEADER_CHALLENGE_JSON);
          fromJson = (case jsonHeader of
                        Some v \<Rightarrow>
                          if v \<noteq> [] then parseChallengeValue P v requestInfo rawHeaders' challengeId'
                          else None
                      | None \<Rightarrow> None)
      in case fromJson of
           Some parsed \<Rightarrow> Some parsed
         | None \<Rightarrow>
             let authHeader = orElse (headers_get headers ''www-authenticate'')
                                (map_of rawHeaders' ''www-authenticate'');
                 fromAuth = (case authHeader of
                               Some v \<Rightarrow>
                                 if v \<noteq> []
                                 then fromAuthenticateChallenge P v requestInfo rawHeaders' challengeId'
                                 else None
                             | None \<Rightarrow> None)
             in (case fromAuth of
                   Some parsed \<Rightarrow> Some parsed
                 | None \<Rightarrow>
                     let amountUsd' =
                           (case first_defined rawHeaders' [''x-402-amount'', ''x-payment-amount-usd''] of
                              Some s \<Rightarrow> Number_string P s
                            | None \<Rightarrow> Fin 0);
                         tokenSymbol' =
                           (case first_defined rawHeaders' [''x-402-token'', ''x-payment-token''] of
                              Some s \<Rightarrow> s
                            | None \<Rightarrow> ''USDC'');
                         seller' = first_defined rawHeaders' [''x-402-address'', ''x-payment-seller''];
                         tokenAddress' =
                           first_defined rawHeaders' [''x-402-token-address'', ''x-payment-token-address''];
                         chain' =
                           (case first_defined rawHeaders' [''x-402-chain'', ''x-payment-chain''] of
                              Some s \<Rightarrow> Number_string P s
                            | None \<Rightarrow> Fin 137);
                         atomic = first_defined rawHeaders' [''x-402-amount-atomic'', ''x-payment-amount'']
                     in if \<not> str_truthy seller' \<or> \<not> str_truthy tokenAddress' \<or> \<not> str_truthy atomic
                        then None
                        else
                          Some \<lparr> amountUsd = amountUsd',
                                 tokenSymbol = tokenSymbol',
                                 challengeId = challengeId',
                                 endpoint = ri_endpoint requestInfo,
                                 origin = ri_origin requestInfo,
                                 rawHeaders = rawHeaders',
                                 http_method = ri_method requestInfo,
                                 chainId = chain',
                                 network = None,
                                 tokenAddress = JStr (the tokenAddress'),
                                 seller = the seller',
                                 amountAtomic = the atomic,
                                 tokenName = None,
                                 tokenVersion = None,
                                 tokenDecimals = None,
                                 x402Version = None,
                                 rawChallenge = None \<rparr>))"

text \<open>
  The first two attempts of \<open>parseChallengeHeaders\<close> on their own, named for the
  statements below: what the dedicated challenge header yields, and what the
  auth-challenge header yields.
\<close>

definition dedicatedChallenge ::
  "Platform \<Rightarrow> HeaderSource \<Rightarrow> RequestInfo \<Rightarrow> ChallengeDetails option" where
  "dedicatedChallenge P headers requestInfo =
     (let (rawHeaders', challengeId') = baseDetails P headers;
          jsonHeader = orElse (headers_get headers HEADER_CHALLENGE_JSON)
                         (map_of rawHeaders' HEADER_CHALLENGE_JSON)
      in case jsonHeader of
           Some v \<Rightarrow> if v \<noteq> [] then parseChallengeValue P v requestInfo rawHeaders' challengeId'
                      else None
         | None \<Rightarrow> None)"

definition authenticateChallenge ::
  "Platform \<Rightarrow> HeaderSource \<Rightarrow> RequestInfo \<Rightarrow> ChallengeDetails option" where
  "authenticateChallenge P headers requestInfo =
     (let (rawHeaders', challengeId') = baseDetails P headers;
          authHeader = orElse (headers_get headers ''www-authenticate'')
                         (map_of rawHeaders' ''www-authenticate'')
      in case authHeader of
           Some v \<Rightarrow> if v \<noteq> [] then fromAuthenticateChallenge P v requestInfo rawHeaders' challengeId'
                      else None
         | None \<Rightarrow> None)"

section \<open>Example inputs\<close>

text \<open>Concrete values at which the statements below are evaluated.\<close>

definition example_challenge :: ChallengeDetails where
  "example_challenge =
     \<lparr> amountUsd = Fin (1 / 32), tokenSymbol = ''USDC'', challengeId = ''challenge-1'',
       endpoint = ''/joke'', origin = ''https://shop.example'', rawHeaders = [],
       http_method = ''GET'', chainId = Fin 80002, network = None,
       tokenAddress = JStr ''0x41E94Eb019C0762f9Bfcf9Fb1E58725BfB0e7582'',
       seller = ''0x1111111111111111111111111111111111111111'', amountAtomic = ''10000'',
       tokenName = None, tokenVersion = None, tokenDecimals = None, x402Version = None,
       rawChallenge = None \<rparr>"

definition example_record :: PaymentRecord where
  "example_record =
     \<lparr> pr_id = ''challenge-0'', pr_origin = ''https://shop.example'', pr_endpoint = ''/joke'',
       pr_amountUsd = Fin 1, pr_tokenSymbol = ''USDC'', timestamp = 1000,
       status = status_success, autoApproved = True, txHash = Some ''0xabc'', pr_note = None \<rparr>"

definition example_policy :: SitePolicy where
  "example_policy =
     \<lparr> sp_origin = ''https://shop.example'', allowUnderThreshold = True, mode = mode_ask,
       capUsd = Some (Fin 5), lifetimeUsd = Fin 1, dailyUsd = Fin 1,
       lastResetISO = ''1970-01-01'' \<rparr>"

definition example_wallet :: WalletData where
  "example_wallet =
     \<lparr> address = ''0x2222222222222222222222222222222222222222'',
       encryptedPrivateKey = Some ''cipher'', encryptionSalt = Some ''salt'',
       encryptionIv = Some ''iv'', encryptionTag = None, privateKey = None,
       lockDurationMinutes = Some (Fin 15), lockedUntil = Some 0, label = None \<rparr>"

definition example_key :: string where
  "example_key = ''0x59c6995e998f97a5a0044966f0945389dc9e86dae88c7a8412f4603b6b78690d''"

text \<open>A store with a configured, locked wallet; and the same store unlocked until \<open>t\<close>.\<close>

definition locked_store :: Store where
  "locked_store =
     \<lparr> stored = Some (INITIAL_STATE \<lparr> wallet := Some example_wallet \<rparr>),
       runtimePrivateKey = None, runtimeLockedUntil = 0 \<rparr>"


text \<open>
  A platform for the examples: \<open>JSON.parse\<close> knows the two texts the examples parse,
  the passphrase \<open>pw1234567\<close> decrypts the example wallet, signing succeeds for the
  example key and fails for any other. Its addition returns the exact sum, as the addition
  of doubles does wherever the exact sum is a double: the amounts the examples add are
  multiples of 1/32 below 2. Its \<open>toUpperCase\<close> maps the ASCII letters.
\<close>

fun exact_add :: "jsnum \<Rightarrow> jsnum \<Rightarrow> jsnum" where
  "exact_add NaN _ = NaN"
| "exact_add _ NaN = NaN"
| "exact_add NegInf PosInf = NaN"
| "exact_add PosInf NegInf = NaN"
| "exact_add NegInf _ = NegInf"
| "exact_add _ NegInf = NegInf"
| "exact_add PosInf _ = PosInf"
| "exact_add _ PosInf = PosInf"
| "exact_add (Fin a) (Fin b) = Fin (a + b)"

definition ascii_toUpperCase_char :: "char \<Rightarrow> char" where
  "ascii_toUpperCase_char c =
     (let n = (of_char c :: nat) in if 97 \<le> n \<and> n \<le> 122 then char_of (n - 32) else c)"

definition example_json_text :: string where
  \<open>example_json_text = ''{"chainId":137,"tokenAddress":"0x3c499c542cEF5E3811e1192ce70d8cC03d5c3359","seller":"","amount":""}''\<close>

definition example_json :: json where
  "example_json =
     JObj [(''chainId'', JNum (Fin 137)),
           (''tokenAddress'', JStr ''0x3c499c542cEF5E3811e1192ce70d8cC03d5c3359''),
           (''seller'', JStr ''''),
           (''amount'', JStr '''')]"

definition example_json_text2 :: string where
  \<open>example_json_text2 = ''{"chainId":137,"tokenAddress":"0x3c499c542cEF5E3811e1192ce70d8cC03d5c3359","seller":"0x3333333333333333333333333333333333333333","amount":"2500","amountUsd":0.03125}''\<close>

definition example_json2 :: json where
  "example_json2 =
     JObj [(''chainId'', JNum (Fin 137)),
           (''tokenAddress'', JStr ''0x3c499c542cEF5E3811e1192ce70d8cC03d5c3359''),
           (''seller'', JStr ''0x3333333333333333333333333333333333333333''),
           (''amount'', JStr ''2500''),
           (''amountUsd'', JNum (Fin (1 / 32)))]"

definition example_platform :: Platform where
  "example_platform =
     \<lparr> JSON_parse = (\<lambda>s. if s = example_json_text then Some example_json
                          else if s = example_json_text2 then Some example_json2
                          else None),
       JSON_stringify = (\<lambda>j. ''{}''),
       atob = (\<lambda>s. None),
       btoa = (\<lambda>s. ''e30=''),
       Number_string = (\<lambda>s. NaN),
       Number_object = (\<lambda>j. NaN),
       Number_add = exact_add,
       String_number = (\<lambda>n. if n = Fin 80002 then ''80002'' else ''137''),
       String_object = (\<lambda>j. ''[object Object]''),
       String_toUpperCase = map ascii_toUpperCase_char,
       randomUUID = ''00000000-0000-4000-8000-000000000000'',
       randomBytes = (\<lambda>n. replicate n 7),
       signTypedData = (\<lambda>key domain authorization.
                          if key = example_key then Inr ''0xsignature''
                          else Inl ''invalid private key''),
       wallet_address = (\<lambda>key. if key = example_key
                                 then Some ''0x2222222222222222222222222222222222222222''
                                 else None),
       encryptSecret = (\<lambda>secret passphrase. \<lparr> cipherText = ''cipher'', salt = ''salt'', iv = ''iv'' \<rparr>),
       decryptSecret = (\<lambda>payload passphrase. if passphrase = ''pw1234567'' then Some example_key
                                               else None),
       windows_create = (\<lambda>url. Some (Some 7)),
       runtime_getURL = (\<lambda>path. ''chrome-extension://x402/'' @ path),
       toISODate = (\<lambda>t. ''1970-01-01'') \<rparr>"

definition example_request :: RequestInfo where
  "example_request = \<lparr> ri_origin = ''https://shop.example'', ri_endpoint = ''/joke'', ri_method = ''GET'' \<rparr>"

text \<open>Header sources built from a list of pairs, as a \<open>Headers\<close> object with lower-case names.\<close>

definition headers_of :: "(string \<times> string) list \<Rightarrow> HeaderSource" where
  "headers_of kvs = \<lparr> headers_get = map_of kvs, headers_forEach = kvs \<rparr>"

text \<open>
  The hypothesis of the property on approvals about the site policy: none is recorded
  for the origin, or the recorded one is not in mode deny, allows payments under the
  threshold, and its lifetime cap is not exceeded.
\<close>

definition policy_permits :: "Platform \<Rightarrow> SitePolicy option \<Rightarrow> ChallengeDetails \<Rightarrow> bool" where
  "policy_permits P policy ch =
     (case policy of
        None \<Rightarrow> True
      | Some p \<Rightarrow> mode p \<noteq> mode_deny \<and> allowUnderThreshold p \<and> \<not> rule_lifetime_cap P (Some p) ch)"

text \<open>
  Two states with the default settings (threshold 0.05, daily cap 1): one whose history
  holds a successful auto-approved payment of 1 USD, and one with a site policy and half a
  dollar spent.
\<close>

definition capped_state :: ExtensionState where
  "capped_state = INITIAL_STATE \<lparr> history := [example_record] \<rparr>"

definition policy_state :: ExtensionState where
  "policy_state = INITIAL_STATE \<lparr> policies := [(''https://shop.example'', example_policy)],
                                  history := [example_record \<lparr> pr_amountUsd := Fin (1/2) \<rparr>] \<rparr>"

text \<open>The wallet record of the persisted document, and the absence of the decrypted key.\<close>

definition persisted_wallet :: "Store \<Rightarrow> WalletData option" where
  "persisted_wallet store = (case stored store of None \<Rightarrow> None | Some st \<Rightarrow> wallet st)"

definition no_private_key :: "WalletData option \<Rightarrow> bool" where
  "no_private_key w = (case w of None \<Rightarrow> True | Some x \<Rightarrow> privateKey x = None)"

text \<open>The update that \<open>x402:unlockWallet\<close> writes for the example wallet at time 1000.\<close>

definition unlock_update :: StateUpdate where
  "unlock_update =
     no_update \<lparr> u_wallet := Some (Some (example_wallet \<lparr> privateKey := Some example_key,
                                                         lockedUntil := Some 901000 \<rparr>)) \<rparr>"

text \<open>
  The pending-challenge map of the persisted document, and the entries a read keeps:
  those the pruning loop does not drop.
\<close>

definition stored_pending :: "Store \<Rightarrow> (string \<times> PendingChallenge) list" where
  "stored_pending store = (case stored store of None \<Rightarrow> [] | Some st \<Rightarrow> pendingChallenges st)"

definition live :: "int \<Rightarrow> string \<times> PendingChallenge \<Rightarrow> bool" where
  "live now = (\<lambda>(id, entry). \<not> expired now entry)"



text \<open>
  The wallet holds a valid transient secret when the key is in memory and the unlock
  window has not ended; a wallet is configured when the persisted document has a wallet
  record. The resolution that sends the caller to the interactive prompt.
\<close>

definition has_transient_secret :: "Store \<Rightarrow> int \<Rightarrow> bool" where
  "has_transient_secret store now =
     (str_truthy (runtimePrivateKey store) \<and> now < runtimeLockedUntil store)"

definition wallet_configured :: "Store \<Rightarrow> bool" where
  "wallet_configured store = (persisted_wallet store \<noteq> None)"

definition locked_wallet :: "Store \<Rightarrow> int \<Rightarrow> bool" where
  "locked_wallet store now = (wallet_configured store \<and> \<not> has_transient_secret store now)"

definition pending_resolution :: "ChallengeDetails \<Rightarrow> ChallengeResolution" where
  "pending_resolution ch =
     \<lparr> action = action_pending, message = None, retryHeaders = None,
       res_challengeId = Some (challengeId ch) \<rparr>"





text \<open>
  The domain separator \<open>createAuthorization\<close> signs over, and the example wallet with
  its key in place, as \<open>getState\<close> hands it to \<open>processPayment\<close> while unlocked.
\<close>

definition typed_domain :: "ChallengeDetails \<Rightarrow> TypedDomain" where
  "typed_domain ch =
     \<lparr> dom_name = (case tokenName ch of Some n \<Rightarrow> n | None \<Rightarrow> ''USD Coin''),
       dom_version = (case tokenVersion ch of Some v \<Rightarrow> v | None \<Rightarrow> ''2''),
       dom_chainId = chainId ch,
       verifyingContract = tokenAddress ch \<rparr>"

definition unlocked_example_wallet :: WalletData where
  "unlocked_example_wallet = example_wallet \<lparr> privateKey := Some example_key, lockedUntil := Some 1700000900000 \<rparr>"

text \<open>
  The value of the dedicated challenge header as \<open>parseChallengeHeaders\<close> reads it, and
  the relation between two records that differ at most in the two fields that carry the
  response's headers and the fallback identifier.
\<close>

definition dedicated_header_value :: "Platform \<Rightarrow> HeaderSource \<Rightarrow> string option" where
  "dedicated_header_value P headers =
     orElse (headers_get headers HEADER_CHALLENGE_JSON)
       (map_of (fst (baseDetails P headers)) HEADER_CHALLENGE_JSON)"

definition same_payment :: "ChallengeDetails \<Rightarrow> ChallengeDetails \<Rightarrow> bool" where
  "same_payment c c' = (c \<lparr> rawHeaders := [], challengeId := [] \<rparr> = c' \<lparr> rawHeaders := [], challengeId := [] \<rparr>)"

text \<open>
  Three responses: a dedicated header whose JSON has an empty seller and an empty amount;
  a dedicated header together with a complete legacy set that names another seller and
  amount; and a legacy set with neither a chain nor a USD amount. The record the second
  dedicated header parses to on its own.
\<close>

definition empty_seller_headers :: HeaderSource where
  "empty_seller_headers = headers_of [(''x-payment-challenge'', example_json_text)]"

definition both_headers :: HeaderSource where
  "both_headers =
     headers_of [(''x-payment-challenge'', example_json_text2),
                 (''x-402-address'', ''0x9999999999999999999999999999999999999999''),
                 (''x-402-token-address'', ''0x41E94Eb019C0762f9Bfcf9Fb1E58725BfB0e7582''),
                 (''x-402-amount-atomic'', ''777''),
                 (''x-402-amount'', ''0.77''),
                 (''x-402-chain'', ''80002''),
                 (''x-402-token'', ''USDC'')]"

definition legacy_headers :: HeaderSource where
  "legacy_headers =
     headers_of [(''x-402-address'', ''0x9999999999999999999999999999999999999999''),
                 (''x-402-token-address'', ''0x41E94Eb019C0762f9Bfcf9Fb1E58725BfB0e7582''),
                 (''x-402-amount-atomic'', ''777'')]"

definition example_parsed2 :: ChallengeDetails where
  "example_parsed2 =
     \<lparr> amountUsd = Fin (1 / 32), tokenSymbol = ''USDC'', challengeId = [],
       endpoint = ''/joke'', origin = ''https://shop.example'', rawHeaders = [],
       http_method = ''GET'', chainId = Fin 137, network = None,
       tokenAddress = JStr ''0x3c499c542cEF5E3811e1192ce70d8cC03d5c3359'',
       seller = ''0x3333333333333333333333333333333333333333'', amountAtomic = ''2500'',
       tokenName = None, tokenVersion = None, tokenDecimals = None, x402Version = None,
       rawChallenge = Some example_json2 \<rparr>"

text \<open>
  The store of a fresh install, where no wallet has been configured, and the resolution
  \<open>processPayment\<close> returns there.
\<close>

definition fresh_store :: Store where
  "fresh_store = \<lparr> stored = None, runtimePrivateKey = None, runtimeLockedUntil = 0 \<rparr>"

definition not_configured_resolution :: ChallengeResolution where
  "not_configured_resolution =
     \<lparr> action = action_error, message = Some ''Wallet not configured'', retryHeaders = None,
       res_challengeId = None \<rparr>"

section \<open>Verified properties\<close>

subsection \<open>The policy engine\<close>

lemma js_le_not_gt: "js_le a b \<Longrightarrow> \<not> js_gt a b"
  by (cases a; cases b) simp_all

lemma foldl_sum_from:
  "foldl (\<lambda>sum r. Number_add P sum (f r)) acc rs = sum_from P acc (map f rs)"
  by (induction rs arbitrary: acc) simp_all

text \<open>
  The \<open>reduce\<close> of the code computes the sum the design document speaks of: the same
  records, added in the same order with the same addition.
\<close>

lemma spentInLast24h_spec:
  "spentInLast24h P state now = auto_success_spend_24h P (history state) now"
proof -
  have eq: "(\<lambda>record. status record = status_success \<and> autoApproved record
                 \<and> now - 24 * 60 * 60 * 1000 \<le> timestamp record)
            = (\<lambda>r. status r = status_success \<and> autoApproved r = True
                 \<and> now - timestamp r \<le> 24 * 60 * 60 * 1000)"
    by (rule ext) auto
  show ?thesis
    unfolding spentInLast24h_def auto_success_spend_24h_def Let_def
    by (simp only: foldl_sum_from eq)
qed

text \<open>
  Claim C1. For every state (settings, site policies, payment history), challenge and
  clock reading, and whatever the addition of doubles returns, \<open>shouldAutoApprove\<close>
  approves exactly when the decision rule of the design document does: defer on a site
  policy in mode deny, else on an amount above the threshold, else on \<open>promptRequired\<close>,
  else on a site policy that does not allow payments under the threshold, else on an
  exceeded positive lifetime cap, else on an exceeded positive daily cap over the
  successful auto-approved payments of the trailing 24 hours; approve otherwise.
\<close>

theorem C1_decision_precedence:
  "shouldAutoApprove P state ch now
     = (decide_spec P (settings state) (map_of (policies state) (origin ch)) (history state) ch now
          = Approve)"
  unfolding shouldAutoApprove_def decide_spec_def Let_def spentInLast24h_spec
    rule_site_deny_def rule_over_threshold_def rule_prompt_required_def
    rule_not_allowed_under_threshold_def rule_lifetime_cap_def rule_daily_cap_def
  by (simp split: option.splits)

theorem C1_decision_precedence_witness:
  "shouldAutoApprove example_platform policy_state example_challenge 2000
   \<and> decide_spec example_platform (settings policy_state)
        (map_of (policies policy_state) (origin example_challenge))
        (history policy_state) example_challenge 2000 = Approve
   \<and> \<not> shouldAutoApprove example_platform capped_state example_challenge 2000
   \<and> decide_spec example_platform (settings capped_state)
        (map_of (policies capped_state) (origin example_challenge))
        (history capped_state) example_challenge 2000 = Defer"
proof -
  have add: "Number_add example_platform = exact_add" by (simp add: example_platform_def)
  have a: "shouldAutoApprove example_platform policy_state example_challenge 2000"
    by (simp add: policy_state_def INITIAL_STATE_def defaultSettings_def example_challenge_def
      example_record_def example_policy_def shouldAutoApprove_def spentInLast24h_def add)
  have b: "\<not> shouldAutoApprove example_platform capped_state example_challenge 2000"
    by (simp add: capped_state_def INITIAL_STATE_def defaultSettings_def example_challenge_def
      example_record_def shouldAutoApprove_def spentInLast24h_def add)
  from a b C1_decision_precedence [of example_platform policy_state example_challenge 2000]
    C1_decision_precedence [of example_platform capped_state example_challenge 2000]
  show ?thesis
    by (cases "decide_spec example_platform (settings capped_state)
        (map_of (policies capped_state) (origin example_challenge))
        (history capped_state) example_challenge 2000") simp_all
qed

text \<open>
  Claim C6, as stated, fails: with no site policy recorded for the origin, an amount under
  the threshold and \<open>promptRequired\<close> off, the challenge is still deferred when the global
  daily cap is exhausted. Here the history holds one successful auto-approved payment of
  1 USD, the daily cap is 1 USD and the challenge asks for 1/32 USD; the two sums,
  0 + 1 and 1 + 1/32, are doubles, so the addition of doubles returns them exactly.
\<close>

theorem C6_counterexample:
  "js_le (amountUsd example_challenge) (thresholdUsd (settings capped_state))
   \<and> promptRequired (settings capped_state) = False
   \<and> map_of (policies capped_state) (origin example_challenge) = None
   \<and> shouldAutoApprove example_platform capped_state example_challenge 2000 = False"
  by (simp add: capped_state_def INITIAL_STATE_def defaultSettings_def example_challenge_def
      example_record_def shouldAutoApprove_def spentInLast24h_def example_platform_def)

text \<open>
  Claim C6, amended. For every challenge with \<open>amountUsd \<le> thresholdUsd\<close>,
  \<open>promptRequired = false\<close>, either no recorded site policy for the origin or a policy
  that is not in mode deny, has \<open>allowUnderThreshold = true\<close> and an unexceeded lifetime
  cap, and the global daily cap of the settings unexceeded as well (it is not positive,
  or the successful auto-approved spend of the trailing 24 hours plus this amount does
  not exceed it), the decision function approves. The two sums that are compared with a
  cap are the ones the code computes, in doubles: \<open>lifetimeUsd + amountUsd\<close>, and the
  amounts of the history added from 0 in the order of the history, plus \<open>amountUsd\<close>.
  The statement holds whatever the addition of doubles returns.
\<close>

theorem C6_approve_under_threshold:
  assumes "js_le (amountUsd ch) (thresholdUsd (settings state))"
    and "promptRequired (settings state) = False"
    and "policy_permits P (map_of (policies state) (origin ch)) ch"
    and "\<not> rule_daily_cap P (settings state) (history state) ch now"
  shows "shouldAutoApprove P state ch now"
proof -
  have thr: "\<not> js_gt (amountUsd ch) (thresholdUsd (settings state))"
    using assms(1) by (rule js_le_not_gt)
  show ?thesis
  proof (cases "map_of (policies state) (origin ch)")
    case None
    with thr assms(2,4) show ?thesis
      by (simp add: shouldAutoApprove_def spentInLast24h_spec rule_daily_cap_def)
  next
    case (Some p)
    with assms(3) have p: "mode p \<noteq> mode_deny" "allowUnderThreshold p"
      "\<not> rule_lifetime_cap P (Some p) ch"
      by (simp_all add: policy_permits_def)
    from p(3) have cap: "(case capUsd p of
                        Some c \<Rightarrow> js_gt c (Fin 0)
                                  \<and> js_gt (Number_add P (lifetimeUsd p) (amountUsd ch)) c
                      | None \<Rightarrow> False) = False"
      by (simp add: rule_lifetime_cap_def split: option.splits)
    show ?thesis
      using Some thr assms(2,4) p(1,2) cap
      by (simp add: shouldAutoApprove_def spentInLast24h_spec rule_daily_cap_def)
  qed
qed

theorem C6_approve_under_threshold_witness:
  "js_le (amountUsd example_challenge) (thresholdUsd (settings policy_state))
   \<and> promptRequired (settings policy_state) = False
   \<and> policy_permits example_platform
        (map_of (policies policy_state) (origin example_challenge)) example_challenge
   \<and> \<not> rule_daily_cap example_platform (settings policy_state) (history policy_state)
          example_challenge 2000
   \<and> shouldAutoApprove example_platform policy_state example_challenge 2000"
proof -
  have add: "Number_add example_platform = exact_add" by (simp add: example_platform_def)
  have h1: "js_le (amountUsd example_challenge) (thresholdUsd (settings policy_state))"
    by (simp add: policy_state_def INITIAL_STATE_def defaultSettings_def example_challenge_def)
  have h2: "promptRequired (settings policy_state) = False"
    by (simp add: policy_state_def INITIAL_STATE_def defaultSettings_def)
  have h3: "policy_permits example_platform
              (map_of (policies policy_state) (origin example_challenge)) example_challenge"
    by (simp add: policy_state_def INITIAL_STATE_def example_challenge_def example_policy_def
        policy_permits_def rule_lifetime_cap_def add)
  have h4: "\<not> rule_daily_cap example_platform (settings policy_state) (history policy_state)
               example_challenge 2000"
    by (simp add: policy_state_def INITIAL_STATE_def defaultSettings_def example_challenge_def
        example_record_def rule_daily_cap_def auto_success_spend_24h_def add)
  from C6_approve_under_threshold [OF h1 h2 h3 h4] h1 h2 h3 h4 show ?thesis by simp
qed

subsection \<open>The state store\<close>

lemma setState_stored:
  "stored (fst (setState store update now))
     = Some ((snd (setState store update now))
               \<lparr> wallet := sanitizeWalletForPersist (wallet (snd (setState store update now))) \<rparr>)"
  by (simp add: setState_def Let_def case_prod_beta)

lemma setState_wallet:
  "wallet (snd (setState store update now))
     = (case u_wallet update of
          Some w \<Rightarrow> w
        | None \<Rightarrow> wallet (snd (getState store False now)))"
  by (simp add: setState_def Let_def case_prod_beta)

lemma setState_persisted_wallet:
  "persisted_wallet (fst (setState store update now))
     = sanitizeWalletForPersist (wallet (snd (setState store update now)))"
  by (simp add: persisted_wallet_def setState_stored)

lemma no_private_key_sanitize: "no_private_key (sanitizeWalletForPersist w)"
  by (simp add: no_private_key_def sanitizeWalletForPersist_def split: option.splits)

lemma lockedUntil_sanitize:
  "map_option lockedUntil (sanitizeWalletForPersist w) = map_option lockedUntil w"
  by (simp add: sanitizeWalletForPersist_def split: option.splits)

text \<open>
  Claim C2, as stated, fails in its second half: \<open>setState\<close> strips the decrypted key
  and nothing else, so a wallet written with \<open>lockedUntil = now + 15 minutes\<close> is
  persisted with that \<open>lockedUntil\<close>. Here the write of an unlock at time 1000, directly
  and through \<open>unlockWallet\<close>, leaves \<open>lockedUntil = 901000\<close> in the persisted record.
\<close>

theorem C2_counterexample:
  "persisted_wallet (fst (setState locked_store unlock_update 1000))
     = Some (example_wallet \<lparr> lockedUntil := Some 901000 \<rparr>)
   \<and> map_option lockedUntil
        (persisted_wallet
           (fst (unlockWallet example_platform locked_store (Some ''pw1234567'') None 1000)))
       = Some (Some 901000)"
  apply (rule conjI)
   apply (simp add: persisted_wallet_def setState_stored setState_wallet no_update_def
      unlock_update_def sanitizeWalletForPersist_def example_wallet_def)
  apply (simp add: unlockWallet_def locked_store_def example_platform_def getState_def
      applyRuntimeWallet_def INITIAL_STATE_def example_wallet_def Let_def trim_def is_space_def
      example_key_def addresses_match_def orElse_def normalizeLockDuration_def
      computeUnlockExpiry_def MIN_LOCK_MINUTES_def MAX_LOCK_MINUTES_def
      persisted_wallet_def setState_stored setState_wallet no_update_def
      sanitizeWalletForPersist_def case_prod_beta)
  done

text \<open>
  Claim C2, amended. For every store, update and clock reading, \<open>setState\<close> writes a
  document whose wallet record never contains the decrypted private key. The record is
  the wallet of the update when the update carries one, and otherwise the current wallet
  as \<open>getState\<close> returns it, without the key; its \<open>lockedUntil\<close> is the one of the state
  \<open>setState\<close> returns, not reset to 0.
\<close>

theorem C2_persisted_wallet:
  "stored (fst (setState store update now)) \<noteq> None
   \<and> no_private_key (persisted_wallet (fst (setState store update now)))
   \<and> persisted_wallet (fst (setState store update now))
       = sanitizeWalletForPersist
           (case u_wallet update of
              Some w \<Rightarrow> w
            | None \<Rightarrow> wallet (snd (getState store False now)))
   \<and> map_option lockedUntil (persisted_wallet (fst (setState store update now)))
       = map_option lockedUntil (wallet (snd (setState store update now)))"
proof -
  have pw: "persisted_wallet (fst (setState store update now))
              = sanitizeWalletForPersist (wallet (snd (setState store update now)))"
    by (simp add: persisted_wallet_def setState_stored)
  show ?thesis
    by (simp add: pw no_private_key_sanitize lockedUntil_sanitize setState_wallet setState_stored)
qed

theorem C2_persisted_wallet_witness:
  "no_private_key (persisted_wallet (fst (setState locked_store unlock_update 1000)))
   \<and> persisted_wallet (fst (setState locked_store unlock_update 1000))
       = Some (example_wallet \<lparr> lockedUntil := Some 901000 \<rparr>)
   \<and> privateKey (example_wallet \<lparr> lockedUntil := Some 901000 \<rparr>) = None"
proof -
  note t = C2_persisted_wallet [of locked_store unlock_update 1000]
  have u: "u_wallet unlock_update
             = Some (Some (example_wallet \<lparr> privateKey := Some example_key,
                                            lockedUntil := Some 901000 \<rparr>))"
    by (simp add: unlock_update_def no_update_def)
  from t have a: "no_private_key (persisted_wallet (fst (setState locked_store unlock_update 1000)))"
    by (rule conjunct1 [OF conjunct2])
  from t have "persisted_wallet (fst (setState locked_store unlock_update 1000))
       = sanitizeWalletForPersist
           (case u_wallet unlock_update of
              Some w \<Rightarrow> w
            | None \<Rightarrow> wallet (snd (getState locked_store False 1000)))"
    by (rule conjunct1 [OF conjunct2 [OF conjunct2]])
  then have b: "persisted_wallet (fst (setState locked_store unlock_update 1000))
       = Some (example_wallet \<lparr> lockedUntil := Some 901000 \<rparr>)"
    by (simp add: u sanitizeWalletForPersist_def example_wallet_def)
  have c: "privateKey (example_wallet \<lparr> lockedUntil := Some 901000 \<rparr>) = None"
    by (simp add: example_wallet_def)
  from a b c show ?thesis by (intro conjI)
qed

subsection \<open>The pending-challenge store\<close>

lemma applyRuntimeWallet_pending:
  "pendingChallenges (snd (applyRuntimeWallet store st inc now)) = pendingChallenges st"
  by (simp add: applyRuntimeWallet_def Let_def split: option.splits)

lemma applyRuntimeWallet_stored:
  "stored (fst (applyRuntimeWallet store st inc now)) = stored store"
  by (simp add: applyRuntimeWallet_def Let_def split: option.splits)

lemma getState_pending:
  "pendingChallenges (snd (getState store inc now)) = stored_pending store"
  by (simp add: getState_def stored_pending_def Let_def applyRuntimeWallet_pending
      sanitizeWalletForPersist_def INITIAL_STATE_def split: option.splits)

lemma getState_stored_pending:
  "stored_pending (fst (getState store inc now)) = stored_pending store"
  by (simp add: getState_def stored_pending_def Let_def applyRuntimeWallet_stored
      sanitizeWalletForPersist_def INITIAL_STATE_def split: option.splits)

lemma setState_stored_pending:
  "stored_pending (fst (setState store update now))
     = (case u_pendingChallenges update of Some p \<Rightarrow> p | None \<Rightarrow> stored_pending store)"
  by (simp add: stored_pending_def setState_stored)
     (simp add: setState_def Let_def case_prod_beta getState_pending split: option.splits)

lemma filter_none_expired:
  "\<not> list_ex (\<lambda>(id, entry). expired now entry) xs \<Longrightarrow> filter (live now) xs = xs"
  by (induction xs) (auto simp: live_def)

lemma pruneExpiredChallenges_pending:
  "stored_pending (pruneExpiredChallenges store now) = filter (live now) (stored_pending store)"
proof (cases "list_ex (\<lambda>(id, entry). expired now entry) (stored_pending store)")
  case True
  then show ?thesis
    by (simp add: pruneExpiredChallenges_def Let_def case_prod_beta getState_pending
        setState_stored_pending no_update_def live_def)
next
  case False
  then show ?thesis
    by (simp add: pruneExpiredChallenges_def Let_def case_prod_beta getState_pending
        getState_stored_pending filter_none_expired)
qed

lemma getPendingChallenges_result:
  "snd (getPendingChallenges store now) = filter (live now) (stored_pending store)"
  by (simp add: getPendingChallenges_def Let_def case_prod_beta getState_pending
      pruneExpiredChallenges_pending)





lemma obj_set_lookup:
  "k \<noteq> ''__proto__'' \<Longrightarrow> map_of (obj_set k v obj) k = Some v"
  by (simp add: obj_set_def update_conv')

lemma obj_set_distinct:
  "distinct (map fst obj) \<Longrightarrow> distinct (map fst (obj_set k v obj))"
  by (simp add: obj_set_def distinct_update)

lemma ensureChallengeStored_pending:
  "stored_pending (ensureChallengeStored store ch tab win now)
     = obj_set (challengeId ch) \<lparr> challenge = ch, tabId = tab, createdAt = now, windowId = win \<rparr>
         (filter (live now) (stored_pending store))"
  by (simp add: ensureChallengeStored_def savePendingChallenges_def case_prod_beta Let_def
      setState_stored_pending no_update_def getPendingChallenges_result)



text \<open>
  A put establishes the hypotheses of the property on the TTL: the keys stay distinct,
  and the entry is stored under its identifier with the time of the put.
\<close>

lemma ensureChallengeStored_distinct:
  "distinct (map fst (stored_pending store))
     \<Longrightarrow> distinct (map fst (stored_pending (ensureChallengeStored store ch tab win now)))"
  by (simp add: ensureChallengeStored_pending obj_set_distinct distinct_map_filter)

lemma ensureChallengeStored_entry:
  "challengeId ch \<noteq> ''__proto__''
     \<Longrightarrow> map_of (stored_pending (ensureChallengeStored store ch tab win now)) (challengeId ch)
           = Some \<lparr> challenge = ch, tabId = tab, createdAt = now, windowId = win \<rparr>"
  by (simp add: ensureChallengeStored_pending obj_set_lookup)

subsection \<open>A locked wallet sends the challenge to the prompt\<close>

lemma getState_locked_wallet:
  assumes "locked_wallet store now"
  shows "locked_wallet (fst (getState store inc now)) now"
    and "\<exists>w. wallet (snd (getState store inc now)) = Some w \<and> privateKey w = None
              \<and> lockedUntil w = Some 0"
  using assms
  by (auto simp: locked_wallet_def wallet_configured_def persisted_wallet_def
      has_transient_secret_def getState_def applyRuntimeWallet_def Let_def
      sanitizeWalletForPersist_def split: option.splits)

lemma setState_locked_wallet:
  assumes "locked_wallet store now" and "u_wallet update = None"
  shows "locked_wallet (fst (setState store update now)) now"
proof -
  from getState_locked_wallet [OF assms(1), of False]
  obtain w where l: "locked_wallet (fst (getState store False now)) now"
    and w: "wallet (snd (getState store False now)) = Some w"
    by blast
  show ?thesis
    using l w assms(2)
    by (simp add: locked_wallet_def wallet_configured_def persisted_wallet_def
        has_transient_secret_def setState_def Let_def case_prod_beta sanitizeWalletForPersist_def)
qed

lemma pruneExpiredChallenges_locked_wallet:
  "locked_wallet store now \<Longrightarrow> locked_wallet (pruneExpiredChallenges store now) now"
  by (simp add: pruneExpiredChallenges_def Let_def case_prod_beta getState_locked_wallet(1)
      setState_locked_wallet no_update_def)

lemma getPendingChallenges_locked_wallet:
  "locked_wallet store now \<Longrightarrow> locked_wallet (fst (getPendingChallenges store now)) now"
  by (simp add: getPendingChallenges_def Let_def case_prod_beta getState_locked_wallet(1)
      pruneExpiredChallenges_locked_wallet)

lemma ensureChallengeStored_locked_wallet:
  "locked_wallet store now \<Longrightarrow> locked_wallet (ensureChallengeStored store ch tab win now) now"
  by (simp add: ensureChallengeStored_def savePendingChallenges_def Let_def case_prod_beta
      getPendingChallenges_locked_wallet setState_locked_wallet no_update_def)

lemma setExtensionStatus_locked_wallet:
  "locked_wallet store now \<Longrightarrow> locked_wallet (setExtensionStatus store st now) now"
  by (simp add: setExtensionStatus_def setState_locked_wallet no_update_def)

lemma updateSettings_locked_wallet:
  "locked_wallet store now \<Longrightarrow> locked_wallet (fst (updateSettings store partial now)) now"
  by (simp add: updateSettings_def Let_def case_prod_beta getState_locked_wallet(1)
      setState_locked_wallet no_update_def)

lemma processPayment_locked:
  assumes "locked_wallet store now"
  shows "snd (processPayment P store ch auto now) = Inl (WalletLockedError ''Wallet locked'')"
proof -
  from getState_locked_wallet(2) [OF assms, of True]
  obtain w where "wallet (snd (getState store True now)) = Some w" "privateKey w = None"
    by blast
  then show ?thesis
    by (simp add: processPayment_def Let_def case_prod_beta)
qed

lemma withExtensionStatus_result:
  "snd (withExtensionStatus store st fn now) = snd (fn (setExtensionStatus store st now))"
  by (simp add: withExtensionStatus_def Let_def case_prod_beta)

text \<open>
  Without a wallet record \<open>processPayment\<close> returns the action error, and the stores
  the handler passes through keep having none.
\<close>

lemma getState_no_wallet_kept:
  assumes "persisted_wallet store = None"
  shows "persisted_wallet (fst (getState store inc now)) = None"
    and "wallet (snd (getState store inc now)) = None"
  using assms
  by (auto simp: getState_def persisted_wallet_def applyRuntimeWallet_def Let_def INITIAL_STATE_def
      split: option.splits)

lemma setState_no_wallet_kept:
  assumes "persisted_wallet store = None" and "u_wallet update = None"
  shows "persisted_wallet (fst (setState store update now)) = None"
  using assms getState_no_wallet_kept(2) [OF assms(1), of False now]
  by (simp add: setState_persisted_wallet setState_wallet sanitizeWalletForPersist_def)

lemma ensureChallengeStored_no_wallet_kept:
  "persisted_wallet store = None
     \<Longrightarrow> persisted_wallet (ensureChallengeStored store ch tab win now) = None"
  by (simp add: ensureChallengeStored_def savePendingChallenges_def getPendingChallenges_def
      pruneExpiredChallenges_def Let_def case_prod_beta getState_no_wallet_kept(1)
      setState_no_wallet_kept no_update_def)

lemma setExtensionStatus_no_wallet_kept:
  "persisted_wallet store = None \<Longrightarrow> persisted_wallet (setExtensionStatus store st now) = None"
  by (simp add: setExtensionStatus_def setState_no_wallet_kept no_update_def)

lemma processPayment_no_wallet:
  "persisted_wallet store = None
     \<Longrightarrow> snd (processPayment P store ch auto now) = Inr not_configured_resolution"
  by (simp add: processPayment_def Let_def case_prod_beta getState_no_wallet_kept(2)
      not_configured_resolution_def)

text \<open>
  Claim C7, as stated, fails where no wallet is configured: there is no key in memory,
  which is the condition of the claim, and an auto-approved payment does not end in
  \<open>WalletLockedError\<close> and the prompt: \<open>processPayment\<close> returns the action error with
  the message that the wallet is not configured, and \<open>handleChallenge\<close> returns it.
  Here the store is the one of a fresh install and the challenge one that the default
  settings approve.
\<close>

theorem C7_counterexample:
  "\<not> has_transient_secret fresh_store 1000
   \<and> shouldAutoApprove example_platform (snd (getState fresh_store False 1000)) example_challenge 1000
   \<and> snd (processPayment example_platform fresh_store example_challenge True 1000)
       = Inr not_configured_resolution
   \<and> snd (handleChallenge example_platform fresh_store example_challenge (Some 3) 1000)
       = Inr not_configured_resolution"
proof -
  have nw: "persisted_wallet fresh_store = None"
    by (simp add: persisted_wallet_def fresh_store_def)
  have h: "\<not> has_transient_secret fresh_store 1000"
    by (simp add: has_transient_secret_def fresh_store_def)
  have g: "snd (getState fresh_store False 1000) = INITIAL_STATE"
    by (simp add: getState_def fresh_store_def)
  have a: "shouldAutoApprove example_platform INITIAL_STATE example_challenge 1000"
    by (simp add: INITIAL_STATE_def shouldAutoApprove_def spentInLast24h_def defaultSettings_def
        example_challenge_def example_platform_def)
  have c: "mapChainId (chainId example_challenge) = Some polygonAmoy"
    "chain (settings INITIAL_STATE) = polygonAmoy"
    by (simp_all add: mapChainId_def example_challenge_def INITIAL_STATE_def defaultSettings_def)
  have nw1: "persisted_wallet (fst (getState fresh_store False 1000)) = None"
    using nw by (rule getState_no_wallet_kept(1))
  have pay: "snd (processPayment example_platform
               (setExtensionStatus
                  (ensureChallengeStored (fst (getState fresh_store False 1000)) example_challenge
                     (Some 3) None 1000) paying 1000)
               example_challenge True 1000) = Inr not_configured_resolution"
    by (intro processPayment_no_wallet setExtensionStatus_no_wallet_kept
        ensureChallengeStored_no_wallet_kept nw1)
  have hc: "snd (handleChallenge example_platform fresh_store example_challenge (Some 3) 1000)
       = Inr not_configured_resolution"
    unfolding handleChallenge_def Let_def case_prod_beta g
    by (simp add: c a withExtensionStatus_result pay)
  from h a g processPayment_no_wallet [OF nw] hc show ?thesis by simp
qed

text \<open>
  Claim C7, amended. Whenever a wallet is configured and holds no valid transient secret
  (no key in memory, or an unlock window that ended at or before now), \<open>processPayment\<close>
  throws \<open>WalletLockedError\<close>, and \<open>handleChallenge\<close> returns the action pending with
  the challenge identifier: an auto-approved attempt falls through to the prompt instead
  of failing the request.
\<close>

theorem C7_locked_wallet_prompts:
  assumes "wallet_configured store" and "\<not> has_transient_secret store now"
  shows "snd (processPayment P store ch autoApproved' now) = Inl (WalletLockedError ''Wallet locked'')
       \<and> snd (handleChallenge P store ch senderTab now) = Inr (pending_resolution ch)"
proof -
  from assms have l: "locked_wallet store now" by (simp add: locked_wallet_def)
  have pay: "\<And>s. locked_wallet s now \<Longrightarrow>
     snd (processPayment P s ch True now) = Inl (WalletLockedError ''Wallet locked'')"
    by (rule processPayment_locked)
  let ?store1 = "fst (getState store False now)"
  have l1: "locked_wallet ?store1 now" using l by (rule getState_locked_wallet(1))
  have l2: "\<And>partial. locked_wallet (fst (updateSettings ?store1 partial now)) now"
    using l1 by (rule updateSettings_locked_wallet)
  have l3: "\<And>s. locked_wallet s now \<Longrightarrow>
     locked_wallet (setExtensionStatus (ensureChallengeStored s ch senderTab None now) paying now) now"
    by (intro setExtensionStatus_locked_wallet ensureChallengeStored_locked_wallet)
  have "snd (handleChallenge P store ch senderTab now) = Inr (pending_resolution ch)"
    unfolding handleChallenge_def Let_def case_prod_beta
    by (simp add: withExtensionStatus_result pay l1 l2 l3 pending_resolution_def
        split: option.splits sum.splits thrown.splits prod.splits)
  with processPayment_locked [OF l] show ?thesis by simp
qed

theorem C7_locked_wallet_prompts_witness:
  "wallet_configured locked_store \<and> \<not> has_transient_secret locked_store 1000
   \<and> shouldAutoApprove example_platform (snd (getState locked_store False 1000)) example_challenge 1000
   \<and> snd (processPayment example_platform locked_store example_challenge True 1000)
       = Inl (WalletLockedError ''Wallet locked'')
   \<and> snd (handleChallenge example_platform locked_store example_challenge (Some 3) 1000)
       = Inr \<lparr> action = action_pending, message = None, retryHeaders = None,
               res_challengeId = Some ''challenge-1'' \<rparr>"
proof -
  have h1: "wallet_configured locked_store"
    by (simp add: wallet_configured_def persisted_wallet_def locked_store_def)
  have h2: "\<not> has_transient_secret locked_store 1000"
    by (simp add: has_transient_secret_def locked_store_def)
  have a: "shouldAutoApprove example_platform (snd (getState locked_store False 1000)) example_challenge 1000"
    by (simp add: getState_def locked_store_def applyRuntimeWallet_def Let_def INITIAL_STATE_def
        example_wallet_def shouldAutoApprove_def spentInLast24h_def defaultSettings_def
        example_challenge_def example_platform_def)
  from C7_locked_wallet_prompts [OF h1 h2, of example_platform example_challenge True "Some 3"] h1 h2 a
  show ?thesis by (simp add: pending_resolution_def example_challenge_def)
qed

subsection \<open>A failed payment\<close>










text \<open>
  The writes of payment processing and of a successful unlock go through \<open>setState\<close>:
  the persisted wallet holds no decrypted key after them.
\<close>

lemma getState_no_wallet:
  "wallet (snd (getState store inc now)) = None
     \<Longrightarrow> persisted_wallet (fst (getState store inc now)) = None"
  by (auto simp: getState_def persisted_wallet_def applyRuntimeWallet_def Let_def INITIAL_STATE_def
      sanitizeWalletForPersist_def split: option.splits if_splits)

lemma processPayment_no_private_key:
  "no_private_key (persisted_wallet (fst (processPayment P store ch auto now)))"
proof (cases "wallet (snd (getState store True now))")
  case None
  then show ?thesis
    by (simp add: processPayment_def Let_def case_prod_beta getState_no_wallet no_private_key_def)
next
  case (Some w)
  then show ?thesis
    by (simp add: processPayment_def Let_def case_prod_beta setState_persisted_wallet
        no_private_key_sanitize split: sum.splits)
qed

lemma unlockWallet_no_private_key:
  "snd (unlockWallet P store passphrase minutes now) = Inr w
     \<Longrightarrow> no_private_key (persisted_wallet (fst (unlockWallet P store passphrase minutes now)))"
  by (auto simp: unlockWallet_def Let_def case_prod_beta setState_persisted_wallet
      no_private_key_sanitize split: option.splits if_splits)

subsection \<open>The authorization builder\<close>

lemma length_hexlify: "length (hexlify bytes) = 2 + 2 * length bytes"
  by (induction bytes) (simp_all add: hexlify_def hex_byte_def)

lemma normalizeNetworkDescriptor_version:
  "snd (normalizeNetworkDescriptor P ch s) = 1 \<or> snd (normalizeNetworkDescriptor P ch s) = 2"
  by (simp add: normalizeNetworkDescriptor_def Let_def)

text \<open>
  Claim C4. For every wallet whose key is not blank, settings, challenge and clock
  reading at which the signer succeeds, \<open>createAuthorization\<close> returns; the authorization
  it signs has \<open>from\<close> the wallet address, \<open>to\<close> the seller, \<open>value\<close> the atomic
  amount, \<open>validAfter\<close> the clock in seconds minus 5, \<open>validBefore\<close> the clock in seconds
  plus 120, 125 seconds apart, and as nonce the hexadecimal form of the 32 bytes asked
  of the random generator; the header value is the base64 encoding of the JSON text of
  \<open>{x402Version, scheme: "exact", network, payload: {authorization, signature}}\<close>, with
  version 1 or 2 and the network descriptor of \<open>normalizeNetworkDescriptor\<close>.
\<close>

theorem C4_authorization:
  assumes key: "privateKey w = Some k" and nonblank: "trim k \<noteq> []"
    and sign: "signTypedData P (trim k) (typed_domain ch)
                 \<lparr> auth_from = address w, auth_to = seller ch, auth_value = amountAtomic ch,
                   validAfter = string_of_int (now_ms div 1000 - 5),
                   validBefore = string_of_int (now_ms div 1000 + 120),
                   nonce = hexlify (randomBytes P 32) \<rparr> = Inr signature"
  shows "\<exists>networkDescriptor version.
           (networkDescriptor, version) = normalizeNetworkDescriptor P ch s
         \<and> (version = 1 \<or> version = 2)
         \<and> createAuthorization P w s ch now_ms
             = Inr \<lparr> ar_paymentId = challengeId ch,
                     xPaymentHeader =
                       btoa P (JSON_stringify P
                         (JObj [(''x402Version'', JNum (Fin (real version))),
                                (''scheme'', JStr ''exact''),
                                (''network'', JStr networkDescriptor),
                                (''payload'',
                                 JObj [(''authorization'',
                                        JObj [(''from'', JStr (address w)),
                                              (''to'', JStr (seller ch)),
                                              (''value'', JStr (amountAtomic ch)),
                                              (''validAfter'', JStr (string_of_int (now_ms div 1000 - 5))),
                                              (''validBefore'', JStr (string_of_int (now_ms div 1000 + 120))),
                                              (''nonce'', JStr (hexlify (randomBytes P 32)))]),
                                       (''signature'', JStr signature)])])),
                     ar_authorization =
                       \<lparr> auth_from = address w, auth_to = seller ch, auth_value = amountAtomic ch,
                         validAfter = string_of_int (now_ms div 1000 - 5),
                         validBefore = string_of_int (now_ms div 1000 + 120),
                         nonce = hexlify (randomBytes P 32) \<rparr> \<rparr>
         \<and> (now_ms div 1000 + 120) - (now_ms div 1000 - 5) = 125
         \<and> length (hexlify (randomBytes P 32)) = 2 + 2 * length (randomBytes P 32)"
proof -
  obtain networkDescriptor version
    where n: "normalizeNetworkDescriptor P ch s = (networkDescriptor, version)"
    by (cases "normalizeNetworkDescriptor P ch s")
  from normalizeNetworkDescriptor_version [of P ch s] n
  have v: "version = 1 \<or> version = 2" by simp
  have run: "createAuthorization P w s ch now_ms
             = Inr \<lparr> ar_paymentId = challengeId ch,
                     xPaymentHeader =
                       btoa P (JSON_stringify P
                         (JObj [(''x402Version'', JNum (Fin (real version))),
                                (''scheme'', JStr ''exact''),
                                (''network'', JStr networkDescriptor),
                                (''payload'',
                                 JObj [(''authorization'',
                                        JObj [(''from'', JStr (address w)),
                                              (''to'', JStr (seller ch)),
                                              (''value'', JStr (amountAtomic ch)),
                                              (''validAfter'', JStr (string_of_int (now_ms div 1000 - 5))),
                                              (''validBefore'', JStr (string_of_int (now_ms div 1000 + 120))),
                                              (''nonce'', JStr (hexlify (randomBytes P 32)))]),
                                       (''signature'', JStr signature)])])),
                     ar_authorization =
                       \<lparr> auth_from = address w, auth_to = seller ch, auth_value = amountAtomic ch,
                         validAfter = string_of_int (now_ms div 1000 - 5),
                         validBefore = string_of_int (now_ms div 1000 + 120),
                         nonce = hexlify (randomBytes P 32) \<rparr> \<rparr>"
    using key nonblank sign n
    by (simp add: createAuthorization_def Let_def typed_domain_def encodeBase64_def
        xPaymentHeaderObj_def authorization_json_def)
  from n v run length_hexlify [of "randomBytes P 32"] show ?thesis
    by (intro exI [of _ networkDescriptor] exI [of _ version]) simp
qed

theorem C4_authorization_witness:
  "createAuthorization example_platform unlocked_example_wallet defaultSettings example_challenge
       1700000000123
     = Inr \<lparr> ar_paymentId = ''challenge-1'', xPaymentHeader = ''e30='',
             ar_authorization =
               \<lparr> auth_from = ''0x2222222222222222222222222222222222222222'',
                 auth_to = ''0x1111111111111111111111111111111111111111'',
                 auth_value = ''10000'',
                 validAfter = ''1699999995'', validBefore = ''1700000120'',
                 nonce = hexlify (replicate 32 7) \<rparr> \<rparr>
   \<and> normalizeNetworkDescriptor example_platform example_challenge defaultSettings
       = (''eip155:80002'', 2)
   \<and> length (hexlify (replicate 32 7 :: 8 word list)) = 66"
proof -
  have h1: "privateKey unlocked_example_wallet = Some example_key"
    by (simp add: unlocked_example_wallet_def)
  have t: "trim example_key = example_key"
    by (simp add: trim_def is_space_def example_key_def)
  have h2: "trim example_key \<noteq> []" by (simp add: t) (simp add: example_key_def)
  have h3: "signTypedData example_platform (trim example_key) (typed_domain example_challenge)
                 \<lparr> auth_from = address unlocked_example_wallet, auth_to = seller example_challenge,
                   auth_value = amountAtomic example_challenge,
                   validAfter = string_of_int (1700000000123 div 1000 - 5),
                   validBefore = string_of_int (1700000000123 div 1000 + 120),
                   nonce = hexlify (randomBytes example_platform 32) \<rparr> = Inr ''0xsignature''"
    by (simp add: t example_platform_def)
  have n: "normalizeNetworkDescriptor example_platform example_challenge defaultSettings
       = (''eip155:80002'', 2)"
    by (simp add: normalizeNetworkDescriptor_def Let_def example_challenge_def get_prop_def
        nonblank_string_def number_value_def orElse_def example_platform_def)
  have r: "randomBytes example_platform 32 = replicate 32 7"
    by (simp add: example_platform_def)
  have s1: "string_of_int (1700000000123 div 1000 - 5) = ''1699999995''"
    by (simp add: string_of_int_def)
  have s2: "string_of_int (1700000000123 div 1000 + 120) = ''1700000120''"
    by (simp add: string_of_int_def)
  have js: "\<And>j. JSON_stringify example_platform j = ''{}''"
    and b64: "\<And>x. btoa example_platform x = ''e30=''"
    by (simp_all add: example_platform_def)
  have fields: "address unlocked_example_wallet = ''0x2222222222222222222222222222222222222222''"
    "seller example_challenge = ''0x1111111111111111111111111111111111111111''"
    "amountAtomic example_challenge = ''10000''"
    "challengeId example_challenge = ''challenge-1''"
    by (simp_all add: unlocked_example_wallet_def example_wallet_def example_challenge_def)
  from C4_authorization [OF h1 h2 h3, of defaultSettings]
  have c: "createAuthorization example_platform unlocked_example_wallet defaultSettings
             example_challenge 1700000000123
     = Inr \<lparr> ar_paymentId = ''challenge-1'', xPaymentHeader = ''e30='',
             ar_authorization =
               \<lparr> auth_from = ''0x2222222222222222222222222222222222222222'',
                 auth_to = ''0x1111111111111111111111111111111111111111'',
                 auth_value = ''10000'',
                 validAfter = ''1699999995'', validBefore = ''1700000120'',
                 nonce = hexlify (replicate 32 7) \<rparr> \<rparr>"
    unfolding js b64 fields r s1 s2 by blast
  have l: "length (hexlify (replicate 32 7 :: 8 word list)) = 66"
    by (simp add: length_hexlify)
  from c n l show ?thesis by (intro conjI)
qed

subsection \<open>The challenge parser\<close>

text \<open>
  What the three paths of \<open>parseChallengeHeaders\<close> guarantee of a record they return.
  A record that comes from JSON has a truthy chain and token address. A record that
  comes from the auth parameters or from the legacy headers has a non-empty seller,
  token address and atomic amount.
\<close>

lemma first_challenge_Some:
  "first_challenge f xs = Some c \<Longrightarrow> \<exists>a. f a = Some c"
  by (induction xs) (auto split: option.splits)

lemma parseChallengeValue_from_json:
  "parseChallengeValue P v ri raw fid = Some c \<Longrightarrow> \<exists>a. fromJsonChallenge P a ri raw fid = Some c"
  unfolding parseChallengeValue_def by (rule first_challenge_Some)

lemma fromJsonChallenge_checks:
  assumes "fromJsonChallenge P a ri raw fid = Some c"
  shows "num_truthy (chainId c) \<and> truthy (Some (tokenAddress c))"
proof -
  from assms obtain parsed where parsed: "JSON_parse P a = Some parsed"
    by (cases "JSON_parse P a") (simp_all add: fromJsonChallenge_def)
  from assms parsed obtain ta where ta: "get_prop (Some parsed) ''tokenAddress'' = Some ta"
    by (cases "get_prop (Some parsed) ''tokenAddress''")
       (simp_all add: fromJsonChallenge_def Let_def split: if_splits)
  from assms parsed ta obtain sv where sv: "get_prop (Some parsed) ''seller'' = Some sv"
    by (cases "get_prop (Some parsed) ''seller''")
       (simp_all add: fromJsonChallenge_def Let_def split: if_splits)
  from assms parsed ta sv show ?thesis
    by (cases sv) (auto simp: fromJsonChallenge_def Let_def split: if_splits)
qed

lemma fromAuthenticateChallenge_nonempty:
  assumes "fromAuthenticateChallenge P v ri raw fid = Some c"
  shows "(seller c \<noteq> [] \<and> amountAtomic c \<noteq> [] \<and> (\<exists>t. tokenAddress c = JStr t \<and> t \<noteq> []))
       \<or> (\<exists>a. fromJsonChallenge P a ri raw fid = Some c)"
proof -
  from assms obtain paramsPart where m: "match_scheme v = Some paramsPart"
    by (cases "match_scheme v") (simp_all add: fromAuthenticateChallenge_def)
  let ?params = "parse_params paramsPart"
  let ?fromValue = "(case first_defined ?params [''challenge'', ''payload''] of
                       Some v \<Rightarrow> if v \<noteq> [] then parseChallengeValue P v ri raw fid else None
                     | None \<Rightarrow> None)"
  show ?thesis
  proof (cases ?fromValue)
    case (Some parsed)
    with assms m have "parsed = c"
      by (simp add: fromAuthenticateChallenge_def Let_def del: first_defined.simps)
    with Some obtain v' where "parseChallengeValue P v' ri raw fid = Some c"
      by (auto split: option.splits if_splits)
    then show ?thesis using parseChallengeValue_from_json by blast
  next
    case None
    let ?s = "first_defined ?params [''seller'', ''to'']"
    let ?t = "first_defined ?params [''tokenAddress'', ''token_address'', ''contract'']"
    let ?a = "first_defined ?params [''amountAtomic'', ''amount_atomic'', ''amount'']"
    from assms m None have ok: "str_truthy ?s" "str_truthy ?t" "str_truthy ?a"
      by (auto simp: fromAuthenticateChallenge_def Let_def simp del: first_defined.simps
          split: if_splits)
    from assms m None ok have "seller c = the ?s" "tokenAddress c = JStr (the ?t)"
      "amountAtomic c = the ?a"
      by (auto simp: fromAuthenticateChallenge_def Let_def simp del: first_defined.simps
          split: if_splits)
    moreover from ok have "the ?s \<noteq> []" "the ?t \<noteq> []" "the ?a \<noteq> []"
      by (cases ?s; cases ?t; cases ?a; simp del: first_defined.simps)+
    ultimately show ?thesis by simp
  qed
qed

lemma parseChallengeHeaders_nonempty_outside_json:
  assumes "parseChallengeHeaders P headers ri = Some c"
  shows "(seller c \<noteq> [] \<and> amountAtomic c \<noteq> [] \<and> (\<exists>t. tokenAddress c = JStr t \<and> t \<noteq> []))
       \<or> (\<exists>a raw fid. fromJsonChallenge P a ri raw fid = Some c)"
proof -
  obtain raw fid where b: "baseDetails P headers = (raw, fid)"
    by (cases "baseDetails P headers")
  let ?fromJson = "(case orElse (headers_get headers HEADER_CHALLENGE_JSON) (map_of raw HEADER_CHALLENGE_JSON) of
              Some v \<Rightarrow> if v \<noteq> [] then parseChallengeValue P v ri raw fid else None
            | None \<Rightarrow> None)"
  let ?fromAuth = "(case orElse (headers_get headers ''www-authenticate'') (map_of raw ''www-authenticate'') of
              Some v \<Rightarrow> if v \<noteq> [] then fromAuthenticateChallenge P v ri raw fid else None
            | None \<Rightarrow> None)"
  show ?thesis
  proof (cases ?fromJson)
    case (Some parsed)
    with assms b have "parsed = c" by (simp add: parseChallengeHeaders_def Let_def)
    with Some obtain v where "parseChallengeValue P v ri raw fid = Some c"
      by (auto split: option.splits if_splits)
    then show ?thesis using parseChallengeValue_from_json by blast
  next
    case nojson: None
    show ?thesis
    proof (cases ?fromAuth)
      case (Some parsed)
      with assms b nojson have "parsed = c" by (simp add: parseChallengeHeaders_def Let_def)
      with Some obtain v where "fromAuthenticateChallenge P v ri raw fid = Some c"
        by (auto split: option.splits if_splits)
      from fromAuthenticateChallenge_nonempty [OF this] show ?thesis by blast
    next
      case None
      let ?s = "first_defined raw [''x-402-address'', ''x-payment-seller'']"
      let ?t = "first_defined raw [''x-402-token-address'', ''x-payment-token-address'']"
      let ?a = "first_defined raw [''x-402-amount-atomic'', ''x-payment-amount'']"
      from assms b nojson None have ok: "str_truthy ?s" "str_truthy ?t" "str_truthy ?a"
        by (auto simp: parseChallengeHeaders_def Let_def simp del: first_defined.simps
            split: if_splits)
      from assms b nojson None ok have "seller c = the ?s" "tokenAddress c = JStr (the ?t)"
        "amountAtomic c = the ?a"
        by (auto simp: parseChallengeHeaders_def Let_def simp del: first_defined.simps
            split: if_splits)
      moreover from ok have "the ?s \<noteq> []" "the ?t \<noteq> []" "the ?a \<noteq> []"
        by (cases ?s; cases ?t; cases ?a; simp del: first_defined.simps)+
      ultimately show ?thesis by simp
    qed
  qed
qed

lemma lower1: "toLowerCase ''x-payment-challenge'' = ''x-payment-challenge''"
  by (simp add: toLowerCase_def toLowerCase_char_def)

lemma base_empty_seller:
  "baseDetails example_platform empty_seller_headers
     = ([(''x-payment-challenge'', example_json_text)], ''00000000-0000-4000-8000-000000000000'')"
  by (simp add: baseDetails_def empty_seller_headers_def headers_of_def Let_def obj_set_def lower1
      HEADER_ID_def orElse_def example_platform_def)

lemma trim_json_text: "trim example_json_text = example_json_text"
  by (simp add: trim_def example_json_text_def is_space_def)

lemma not_base64_json_text: "\<not> base64Pattern_test example_json_text"
  by (simp add: base64Pattern_test_def example_json_text_def is_base64_char_def)

text \<open>
  Claim C3 does not hold of the code on the JSON path. \<open>fromJsonChallenge\<close> tests the
  seller for being a string and the amount not at all, where the legacy and the
  auth-parameter paths test all three values for being non-empty. For the dedicated
  header \<open>{"chainId":137,"tokenAddress":"0x3c49...","seller":"","amount":""}\<close> the parser
  returns a record whose seller and atomic amount are empty.
\<close>

theorem C3_empty_seller_record:
  "parseChallengeHeaders example_platform empty_seller_headers example_request
     = Some \<lparr> amountUsd = Fin 0, tokenSymbol = ''USDC'',
              challengeId = ''00000000-0000-4000-8000-000000000000'',
              endpoint = ''/joke'', origin = ''https://shop.example'',
              rawHeaders = [(''x-payment-challenge'', example_json_text)],
              http_method = ''GET'', chainId = Fin 137, network = None,
              tokenAddress = JStr ''0x3c499c542cEF5E3811e1192ce70d8cC03d5c3359'',
              seller = '''', amountAtomic = '''',
              tokenName = None, tokenVersion = None, tokenDecimals = None, x402Version = None,
              rawChallenge = Some example_json \<rparr>"
proof -
  have v: "headers_get empty_seller_headers HEADER_CHALLENGE_JSON = Some example_json_text"
    by (simp add: empty_seller_headers_def headers_of_def HEADER_CHALLENGE_JSON_def)
  have ne: "example_json_text \<noteq> []" by (simp add: example_json_text_def)
  have att: "challenge_attempts example_platform example_json_text = [example_json_text]"
    by (simp add: challenge_attempts_def Let_def trim_json_text not_base64_json_text ne)
  have parse: "JSON_parse example_platform example_json_text = Some example_json"
    by (simp add: example_platform_def)
  have fj: "fromJsonChallenge example_platform example_json_text example_request
              [(''x-payment-challenge'', example_json_text)] ''00000000-0000-4000-8000-000000000000''
            = Some \<lparr> amountUsd = Fin 0, tokenSymbol = ''USDC'',
              challengeId = ''00000000-0000-4000-8000-000000000000'',
              endpoint = ''/joke'', origin = ''https://shop.example'',
              rawHeaders = [(''x-payment-challenge'', example_json_text)],
              http_method = ''GET'', chainId = Fin 137, network = None,
              tokenAddress = JStr ''0x3c499c542cEF5E3811e1192ce70d8cC03d5c3359'',
              seller = '''', amountAtomic = '''',
              tokenName = None, tokenVersion = None, tokenDecimals = None, x402Version = None,
              rawChallenge = Some example_json \<rparr>"
    unfolding fromJsonChallenge_def parse
    by (simp add: example_json_def get_prop_def Let_def example_request_def)
  show ?thesis
    unfolding parseChallengeHeaders_def base_empty_seller
    by (simp add: Let_def v orElse_def ne parseChallengeValue_def att fj)
qed

theorem C3_empty_seller_record_witness:
  "map_option seller (parseChallengeHeaders example_platform empty_seller_headers example_request)
     = Some ''''
   \<and> map_option amountAtomic (parseChallengeHeaders example_platform empty_seller_headers example_request)
     = Some ''''"
  using C3_empty_seller_record by simp

lemma fromJsonChallenge_same_payment:
  "rel_option same_payment
     (fromJsonChallenge P a ri raw fid) (fromJsonChallenge P a ri raw' fid')"
proof (cases "JSON_parse P a")
  case None
  then show ?thesis by (simp add: fromJsonChallenge_def)
next
  case parsed: (Some parsed)
  show ?thesis
  proof (cases "get_prop (Some parsed) ''tokenAddress''")
    case None
    then show ?thesis by (simp add: fromJsonChallenge_def parsed Let_def)
  next
    case ta: (Some ta)
    show ?thesis
    proof (cases "get_prop (Some parsed) ''seller''")
      case None
      then show ?thesis by (simp add: fromJsonChallenge_def parsed ta Let_def)
    next
      case (Some sv)
      then show ?thesis
        by (cases sv) (simp_all add: fromJsonChallenge_def parsed ta Let_def same_payment_def)
    qed
  qed
qed

lemma first_challenge_rel:
  assumes "\<And>a. rel_option R (f a) (g a)"
  shows "rel_option R (first_challenge f xs) (first_challenge g xs)"
proof (induction xs)
  case Nil
  show ?case by simp
next
  case (Cons x xs)
  from assms [of x] Cons show ?case
    by (cases "f x"; cases "g x") simp_all
qed

lemma parseChallengeValue_same_payment:
  "rel_option same_payment
     (parseChallengeValue P v ri raw fid) (parseChallengeValue P v ri raw' fid')"
  unfolding parseChallengeValue_def
  by (rule first_challenge_rel) (rule fromJsonChallenge_same_payment)

text \<open>
  Claim C8. For every response whose dedicated challenge header is present, not empty and
  parsable, whatever other headers it carries (a complete legacy set included),
  \<open>parseChallengeHeaders\<close> returns the record the dedicated header's value parses to on
  its own, up to the two fields that hold the response's headers and the fallback
  identifier: seller, token address, atomic amount, chain, USD amount and token symbol are
  those of the dedicated header.
\<close>

theorem C8_dedicated_header_wins:
  assumes "dedicated_header_value P headers = Some v" and "v \<noteq> []"
    and "parseChallengeValue P v ri [] [] = Some c0"
  shows "\<exists>c. parseChallengeHeaders P headers ri = Some c \<and> same_payment c c0
             \<and> seller c = seller c0 \<and> tokenAddress c = tokenAddress c0
             \<and> amountAtomic c = amountAtomic c0 \<and> chainId c = chainId c0
             \<and> amountUsd c = amountUsd c0 \<and> tokenSymbol c = tokenSymbol c0"
proof -
  obtain raw fid where b: "baseDetails P headers = (raw, fid)"
    by (cases "baseDetails P headers")
  from parseChallengeValue_same_payment [of P v ri raw fid "[]" "[]"] assms(3)
  obtain c where c: "parseChallengeValue P v ri raw fid = Some c" and s: "same_payment c c0"
    by (cases "parseChallengeValue P v ri raw fid") simp_all
  from assms(1) b have hv: "orElse (headers_get headers HEADER_CHALLENGE_JSON)
                              (map_of raw HEADER_CHALLENGE_JSON) = Some v"
    by (simp add: dedicated_header_value_def)
  have run: "parseChallengeHeaders P headers ri = Some c"
    unfolding parseChallengeHeaders_def b
    by (simp add: Let_def hv assms(2) c)
  from s have eq: "c \<lparr> rawHeaders := [], challengeId := [] \<rparr> = c0 \<lparr> rawHeaders := [], challengeId := [] \<rparr>"
    by (simp add: same_payment_def)
  have f: "seller c = seller c0" "tokenAddress c = tokenAddress c0"
    "amountAtomic c = amountAtomic c0" "chainId c = chainId c0"
    "amountUsd c = amountUsd c0" "tokenSymbol c = tokenSymbol c0"
    using arg_cong [OF eq, of seller] arg_cong [OF eq, of tokenAddress]
      arg_cong [OF eq, of amountAtomic] arg_cong [OF eq, of chainId]
      arg_cong [OF eq, of amountUsd] arg_cong [OF eq, of tokenSymbol]
    by simp_all
  from run s f show ?thesis by blast
qed

text \<open>
  Claim C10. For every response whose dedicated challenge header and auth-challenge
  header yield no record, if the legacy flat headers supply a non-empty seller, token
  address and atomic amount, and neither a chain header nor a USD-amount header is
  present, the parser returns a record with these three values, \<open>chainId\<close> 137 and
  \<open>amountUsd\<close> 0.
\<close>

theorem C10_legacy_defaults:
  assumes "dedicatedChallenge P headers ri = None"
    and "authenticateChallenge P headers ri = None"
    and "first_defined (fst (baseDetails P headers)) [''x-402-address'', ''x-payment-seller''] = Some s"
    and "s \<noteq> []"
    and "first_defined (fst (baseDetails P headers))
           [''x-402-token-address'', ''x-payment-token-address''] = Some t"
    and "t \<noteq> []"
    and "first_defined (fst (baseDetails P headers))
           [''x-402-amount-atomic'', ''x-payment-amount''] = Some a"
    and "a \<noteq> []"
    and "map_of (fst (baseDetails P headers)) ''x-402-chain'' = None"
    and "map_of (fst (baseDetails P headers)) ''x-payment-chain'' = None"
    and "map_of (fst (baseDetails P headers)) ''x-402-amount'' = None"
    and "map_of (fst (baseDetails P headers)) ''x-payment-amount-usd'' = None"
  shows "\<exists>c. parseChallengeHeaders P headers ri = Some c
             \<and> chainId c = Fin 137 \<and> amountUsd c = Fin 0
             \<and> seller c = s \<and> tokenAddress c = JStr t \<and> amountAtomic c = a"
proof -
  obtain raw fid where b: "baseDetails P headers = (raw, fid)"
    by (cases "baseDetails P headers")
  have d: "(case orElse (headers_get headers HEADER_CHALLENGE_JSON) (map_of raw HEADER_CHALLENGE_JSON) of
              Some v \<Rightarrow> if v \<noteq> [] then parseChallengeValue P v ri raw fid else None
            | None \<Rightarrow> None) = None"
    using assms(1) by (simp add: dedicatedChallenge_def b Let_def)
  have au: "(case orElse (headers_get headers ''www-authenticate'') (map_of raw ''www-authenticate'') of
              Some v \<Rightarrow> if v \<noteq> [] then fromAuthenticateChallenge P v ri raw fid else None
            | None \<Rightarrow> None) = None"
    using assms(2) by (simp add: authenticateChallenge_def b Let_def)
  have chain: "first_defined raw [''x-402-chain'', ''x-payment-chain''] = None"
    using assms(9,10) b by (simp add: orElse_def)
  have usd: "first_defined raw [''x-402-amount'', ''x-payment-amount-usd''] = None"
    using assms(11,12) b by (simp add: orElse_def)
  have sup: "first_defined raw [''x-402-address'', ''x-payment-seller''] = Some s"
    "first_defined raw [''x-402-token-address'', ''x-payment-token-address''] = Some t"
    "first_defined raw [''x-402-amount-atomic'', ''x-payment-amount''] = Some a"
    using assms(3,5,7) b by simp_all
  show ?thesis
    unfolding parseChallengeHeaders_def b
    using assms(4,6,8)
    by (simp add: Let_def d au chain usd sup del: first_defined.simps)
qed

lemma base_both_headers:
  "fst (baseDetails example_platform both_headers) = headers_forEach both_headers"
  by (simp add: baseDetails_def both_headers_def headers_of_def Let_def obj_set_def
      toLowerCase_def toLowerCase_char_def)

lemma base_legacy_headers:
  "fst (baseDetails example_platform legacy_headers) = headers_forEach legacy_headers"
  by (simp add: baseDetails_def legacy_headers_def headers_of_def Let_def obj_set_def
      toLowerCase_def toLowerCase_char_def)

theorem C8_dedicated_header_wins_witness:
  "dedicated_header_value example_platform both_headers = Some example_json_text2
   \<and> first_defined (fst (baseDetails example_platform both_headers))
        [''x-402-address'', ''x-payment-seller'']
       = Some ''0x9999999999999999999999999999999999999999''
   \<and> first_defined (fst (baseDetails example_platform both_headers))
        [''x-402-amount-atomic'', ''x-payment-amount''] = Some ''777''
   \<and> map_option seller (parseChallengeHeaders example_platform both_headers example_request)
       = Some ''0x3333333333333333333333333333333333333333''
   \<and> map_option amountAtomic (parseChallengeHeaders example_platform both_headers example_request)
       = Some ''2500''
   \<and> map_option chainId (parseChallengeHeaders example_platform both_headers example_request)
       = Some (Fin 137)"
proof -
  have h1: "dedicated_header_value example_platform both_headers = Some example_json_text2"
    by (simp add: dedicated_header_value_def both_headers_def headers_of_def
        HEADER_CHALLENGE_JSON_def orElse_def)
  have h2: "example_json_text2 \<noteq> []" by (simp add: example_json_text2_def)
  have t: "trim example_json_text2 = example_json_text2"
    by (simp add: trim_def example_json_text2_def is_space_def)
  have nb: "\<not> base64Pattern_test example_json_text2"
    by (simp add: base64Pattern_test_def example_json_text2_def is_base64_char_def)
  have att: "challenge_attempts example_platform example_json_text2 = [example_json_text2]"
    by (simp add: challenge_attempts_def Let_def t nb h2)
  have ne: "example_json_text2 \<noteq> example_json_text"
    by (simp add: example_json_text2_def example_json_text_def)
  have parse: "JSON_parse example_platform example_json_text2 = Some example_json2"
    by (simp add: example_platform_def ne)
  have h3: "parseChallengeValue example_platform example_json_text2 example_request [] []
              = Some example_parsed2"
    unfolding parseChallengeValue_def att
    by (simp add: fromJsonChallenge_def parse)
       (simp add: example_json2_def get_prop_def Let_def example_request_def example_parsed2_def)
  have l1: "first_defined (fst (baseDetails example_platform both_headers))
        [''x-402-address'', ''x-payment-seller'']
       = Some ''0x9999999999999999999999999999999999999999''"
    by (simp add: base_both_headers) (simp add: both_headers_def headers_of_def orElse_def)
  have l2: "first_defined (fst (baseDetails example_platform both_headers))
        [''x-402-amount-atomic'', ''x-payment-amount''] = Some ''777''"
    by (simp add: base_both_headers) (simp add: both_headers_def headers_of_def orElse_def)
  from C8_dedicated_header_wins [OF h1 h2 h3]
  obtain c where "parseChallengeHeaders example_platform both_headers example_request = Some c"
    "seller c = seller example_parsed2" "amountAtomic c = amountAtomic example_parsed2"
    "chainId c = chainId example_parsed2"
    by blast
  then have r: "map_option seller (parseChallengeHeaders example_platform both_headers example_request)
       = Some ''0x3333333333333333333333333333333333333333''"
    "map_option amountAtomic (parseChallengeHeaders example_platform both_headers example_request)
       = Some ''2500''"
    "map_option chainId (parseChallengeHeaders example_platform both_headers example_request)
       = Some (Fin 137)"
    by (simp_all add: example_parsed2_def)
  from h1 l1 l2 r show ?thesis by (intro conjI)
qed

theorem C10_legacy_defaults_witness:
  "dedicatedChallenge example_platform legacy_headers example_request = None
   \<and> authenticateChallenge example_platform legacy_headers example_request = None
   \<and> map_option chainId (parseChallengeHeaders example_platform legacy_headers example_request)
       = Some (Fin 137)
   \<and> map_option amountUsd (parseChallengeHeaders example_platform legacy_headers example_request)
       = Some (Fin 0)
   \<and> map_option seller (parseChallengeHeaders example_platform legacy_headers example_request)
       = Some ''0x9999999999999999999999999999999999999999''
   \<and> map_option amountAtomic (parseChallengeHeaders example_platform legacy_headers example_request)
       = Some ''777''"
proof -
  have g: "\<And>k. headers_get legacy_headers k = map_of (headers_forEach legacy_headers) k"
    by (simp add: legacy_headers_def headers_of_def)
  have fe: "headers_forEach legacy_headers
              = [(''x-402-address'', ''0x9999999999999999999999999999999999999999''),
                 (''x-402-token-address'', ''0x41E94Eb019C0762f9Bfcf9Fb1E58725BfB0e7582''),
                 (''x-402-amount-atomic'', ''777'')]"
    by (simp add: legacy_headers_def headers_of_def)
  have raw: "fst (baseDetails example_platform legacy_headers)
              = [(''x-402-address'', ''0x9999999999999999999999999999999999999999''),
                 (''x-402-token-address'', ''0x41E94Eb019C0762f9Bfcf9Fb1E58725BfB0e7582''),
                 (''x-402-amount-atomic'', ''777'')]"
    by (simp add: base_legacy_headers fe)
  have h1: "dedicatedChallenge example_platform legacy_headers example_request = None"
    by (simp add: dedicatedChallenge_def case_prod_beta Let_def raw g fe HEADER_CHALLENGE_JSON_def
        orElse_def)
  have h2: "authenticateChallenge example_platform legacy_headers example_request = None"
    by (simp add: authenticateChallenge_def case_prod_beta Let_def raw g fe orElse_def)
  have h3: "first_defined (fst (baseDetails example_platform legacy_headers))
              [''x-402-address'', ''x-payment-seller'']
            = Some ''0x9999999999999999999999999999999999999999''"
    by (simp add: raw orElse_def)
  have h5: "first_defined (fst (baseDetails example_platform legacy_headers))
              [''x-402-token-address'', ''x-payment-token-address'']
            = Some ''0x41E94Eb019C0762f9Bfcf9Fb1E58725BfB0e7582''"
    by (simp add: raw orElse_def)
  have h7: "first_defined (fst (baseDetails example_platform legacy_headers))
              [''x-402-amount-atomic'', ''x-payment-amount''] = Some ''777''"
    by (simp add: raw orElse_def)
  have n: "map_of (fst (baseDetails example_platform legacy_headers)) ''x-402-chain'' = None"
    "map_of (fst (baseDetails example_platform legacy_headers)) ''x-payment-chain'' = None"
    "map_of (fst (baseDetails example_platform legacy_headers)) ''x-402-amount'' = None"
    "map_of (fst (baseDetails example_platform legacy_headers)) ''x-payment-amount-usd'' = None"
    by (simp_all add: raw)
  from C10_legacy_defaults [OF h1 h2 h3 _ h5 _ h7 _ n]
  obtain c where "parseChallengeHeaders example_platform legacy_headers example_request = Some c"
    "chainId c = Fin 137" "amountUsd c = Fin 0"
    "seller c = ''0x9999999999999999999999999999999999999999''" "amountAtomic c = ''777''"
    by auto
  then have r: "map_option chainId (parseChallengeHeaders example_platform legacy_headers example_request)
       = Some (Fin 137)"
    "map_option amountUsd (parseChallengeHeaders example_platform legacy_headers example_request)
       = Some (Fin 0)"
    "map_option seller (parseChallengeHeaders example_platform legacy_headers example_request)
       = Some ''0x9999999999999999999999999999999999999999''"
    "map_option amountAtomic (parseChallengeHeaders example_platform legacy_headers example_request)
       = Some ''777''"
    by simp_all
  from h1 h2 r show ?thesis by (intro conjI)
qed

end
